theory Spec2Isabelle
  imports Complex_Main
begin

section \<open>Data model (src/types/ai.ts, src/types/extension.ts, src/types/storage.ts)\<close>

text \<open>
  JavaScript numbers are modelled exactly: counts, token numbers and millisecond
  timestamps as \<open>int\<close>, scores, prices and costs as \<open>rat\<close>. Rounding of IEEE doubles and
  the non-finite values are outside the model. Optional fields (\<open>f?: T\<close>) are
  \<open>T option\<close>, \<open>None\<close> standing for \<open>undefined\<close>. Strings are \<open>string\<close>.
  Where two interfaces declare a field of the same name, the later record prefixes it.
\<close>

datatype AIProvider = claude | chatgpt | gemini | grok

datatype Role = system | user | assistant

datatype TaskType =
    creative_writing | analysis | reasoning | code_generation | debugging
  | technical_docs | research | real_time_info | translation | summarization
  | casual_chat | data_extraction

record AIMessage =
  role :: Role
  content :: string
  timestamp :: "int option"
  msg_provider :: "AIProvider option"
  msg_model :: "string option"
  tokens :: "(int \<times> int) option"
  msg_cost :: "rat option"

record PageContext =
  url :: string
  title :: string
  selection :: "string option"
  visibleText :: "string option"
  fullHtml :: "string option"

text \<open>
  \<open>AIRequest.provider\<close> is declared mandatory, but \<open>sendToAI\<close> tests \<open>!provider\<close>: at run time
  the field may be absent, so it is optional here.
\<close>

record AIRequest =
  provider :: "AIProvider option"
  model :: string
  messages :: "AIMessage list"
  temperature :: "rat option"
  maxTokens :: "int option"
  topP :: "rat option"
  stream :: "bool option"
  systemPrompt :: "string option"
  req_context :: "PageContext option"

record Usage =
  inputTokens :: int
  outputTokens :: int
  totalTokens :: int

text \<open>\<open>responseTime\<close> is the field that \<open>APIManager.sendRequest\<close> adds to the response.\<close>

record AIResponse =
  resp_provider :: AIProvider
  resp_model :: string
  resp_content :: string
  usage :: "Usage option"
  cost :: "rat option"
  error :: "string option"
  streaming :: "bool option"
  responseTime :: "int option"

record StreamChunk =
  delta :: string
  finished :: bool
  chunk_provider :: AIProvider
  chunk_model :: string

text \<open>
  A routing pattern is \<open>RegExp | string\<close>. Every regular expression of the source is a
  case-insensitive alternation of literal words (\<open>/write|story|.../i\<close>, the escaped dot of
  \<open>x\.com\<close> being the literal dot), so a \<open>RegExp\<close> is the list of its alternatives.
\<close>

datatype Pattern = RegExp "string list" | PlainString string

record AIRoutingRule =
  rule_id :: string
  rule_name :: string
  pattern :: Pattern
  rule_provider :: AIProvider
  rule_model :: "string option"
  priority :: int
  taskTypes :: "TaskType list"

record Factors =
  capabilityMatch :: rat
  userPreference :: rat
  costEfficiency :: rat
  responseSpeed :: rat

record RoutingScore =
  score_provider :: AIProvider
  score :: rat
  factors :: Factors

record GeneralSettings =
  defaultProvider :: AIProvider
  autoRouting :: bool

record ProviderSettings =
  enabled :: bool
  settings_model :: string
  settings_temperature :: rat
  settings_maxTokens :: int

record AdvancedSettings =
  concurrentRequests :: int
  cacheResponses :: bool
  cacheTTL :: int

text \<open>
  \<open>providers\<close> is a \<open>Record<AIProvider, ProviderSettings>\<close>: total on the four providers.
  The settings groups that the dispatch path never reads (privacy, appearance) are left out.
\<close>

record ExtensionSettings =
  general :: GeneralSettings
  providers :: "AIProvider \<Rightarrow> ProviderSettings"
  advanced :: AdvancedSettings

text \<open>A thrown JavaScript error: its \<open>name\<close> and its \<open>message\<close>.\<close>

datatype JsError = JsError (err_name: string) (err_message: string)

definition Error :: "string \<Rightarrow> JsError" where
  "Error m = JsError ''Error'' m"

definition TypeError :: "string \<Rightarrow> JsError" where
  "TypeError m = JsError ''TypeError'' m"

section \<open>Strings\<close>

text \<open>\<open>String.prototype.toLowerCase\<close> on the ASCII letters.\<close>

definition lowerChar :: "char \<Rightarrow> char" where
  "lowerChar c =
     (let n = (of_char c :: nat) in if 65 \<le> n \<and> n \<le> 90 then char_of (n + 32) else c)"

definition toLowerCase :: "string \<Rightarrow> string" where
  "toLowerCase s = map lowerChar s"

fun startsWith :: "string \<Rightarrow> string \<Rightarrow> bool" where
  "startsWith s [] = True"
| "startsWith [] (p # ps) = False"
| "startsWith (c # cs) (p # ps) = (c = p \<and> startsWith cs ps)"

fun String_includes :: "string \<Rightarrow> string \<Rightarrow> bool" where
  "String_includes [] p = (p = [])"
| "String_includes (c # cs) p = (startsWith (c # cs) p \<or> String_includes cs p)"

text \<open>
  \<open>pattern.test(content)\<close> for an alternation of literals with the \<open>i\<close> flag: some
  alternative occurs in the content, letter case ignored.
\<close>

definition RegExp_test :: "string list \<Rightarrow> string \<Rightarrow> bool" where
  "RegExp_test alts s = list_ex (\<lambda>a. String_includes (toLowerCase s) (toLowerCase a)) alts"

text \<open>\<open>rule.pattern instanceof RegExp && rule.pattern.test(content)\<close>\<close>

fun pattern_matches :: "Pattern \<Rightarrow> string \<Rightarrow> bool" where
  "pattern_matches (RegExp alts) s = RegExp_test alts s"
| "pattern_matches (PlainString p) s = False"

section \<open>The router (class AIRouter)\<close>

definition routingRules :: "AIRoutingRule list" where
  "routingRules = [
    \<lparr>rule_id = ''claude-creative'', rule_name = ''Claude for Creative Writing'',
      pattern = RegExp [''write'', ''story'', ''creative'', ''poem'', ''narrative'', ''essay'', ''article''],
      rule_provider = claude, rule_model = Some ''claude-3-opus-20240229'', priority = 10,
      taskTypes = [creative_writing]\<rparr>,
    \<lparr>rule_id = ''claude-analysis'', rule_name = ''Claude for Analysis'',
      pattern = RegExp [''analyze'', ''analysis'', ''reasoning'', ''explain'', ''understand'', ''complex''],
      rule_provider = claude, rule_model = None, priority = 10,
      taskTypes = [analysis, reasoning]\<rparr>,
    \<lparr>rule_id = ''chatgpt-code'', rule_name = ''ChatGPT for Code'',
      pattern = RegExp [''code'', ''program'', ''function'', ''debug'', ''implement'', ''javascript'',
                        ''python'', ''typescript''],
      rule_provider = chatgpt, rule_model = Some ''gpt-4-turbo-preview'', priority = 10,
      taskTypes = [code_generation, debugging]\<rparr>,
    \<lparr>rule_id = ''chatgpt-technical'', rule_name = ''ChatGPT for Technical Documentation'',
      pattern = RegExp [''technical'', ''documentation'', ''api'', ''specification''],
      rule_provider = chatgpt, rule_model = None, priority = 9,
      taskTypes = [technical_docs]\<rparr>,
    \<lparr>rule_id = ''gemini-research'', rule_name = ''Gemini for Research'',
      pattern = RegExp [''research'', ''search'', ''find'', ''latest'', ''news'', ''current'', ''google''],
      rule_provider = gemini, rule_model = None, priority = 10,
      taskTypes = [research, real_time_info]\<rparr>,
    \<lparr>rule_id = ''gemini-data'', rule_name = ''Gemini for Data Extraction'',
      pattern = RegExp [''extract'', ''data'', ''table'', ''csv'', ''json'', ''parse''],
      rule_provider = gemini, rule_model = None, priority = 9,
      taskTypes = [data_extraction]\<rparr>,
    \<lparr>rule_id = ''grok-casual'', rule_name = ''Grok for Casual Chat'',
      pattern = RegExp [''chat'', ''casual'', ''quick'', ''simple'', ''hey'', ''hi''],
      rule_provider = grok, rule_model = None, priority = 8,
      taskTypes = [casual_chat]\<rparr>,
    \<lparr>rule_id = ''grok-social'', rule_name = ''Grok for Social Media'',
      pattern = RegExp [''tweet'', ''post'', ''social'', ''twitter'', ''x.com''],
      rule_provider = grok, rule_model = None, priority = 10,
      taskTypes = [casual_chat]\<rparr>]"

record Metrics =
  avgResponseTime :: rat
  successRate :: rat

text \<open>
  The mutable fields of the router. \<open>userPreferences\<close> is a \<open>Map<string, AIProvider>\<close> keyed
  by \<open>`${taskType}-preference`\<close>.
\<close>

record AIRouter =
  userPreferences :: "string \<rightharpoonup> AIProvider"
  performanceMetrics :: "AIProvider \<rightharpoonup> Metrics"

definition initializeMetrics :: "AIProvider \<rightharpoonup> Metrics" where
  "initializeMetrics =
     [claude \<mapsto> \<lparr>avgResponseTime = 2000, successRate = 0.98\<rparr>,
      chatgpt \<mapsto> \<lparr>avgResponseTime = 1800, successRate = 0.97\<rparr>,
      gemini \<mapsto> \<lparr>avgResponseTime = 1500, successRate = 0.96\<rparr>,
      grok \<mapsto> \<lparr>avgResponseTime = 1000, successRate = 0.95\<rparr>]"

text \<open>The router as constructed, before any usage has been loaded.\<close>

definition AIRouter_new :: AIRouter where
  "AIRouter_new = \<lparr>userPreferences = Map.empty, performanceMetrics = initializeMetrics\<rparr>"

fun TaskType_name :: "TaskType \<Rightarrow> string" where
  "TaskType_name creative_writing = ''creative_writing''"
| "TaskType_name analysis = ''analysis''"
| "TaskType_name reasoning = ''reasoning''"
| "TaskType_name code_generation = ''code_generation''"
| "TaskType_name debugging = ''debugging''"
| "TaskType_name technical_docs = ''technical_docs''"
| "TaskType_name research = ''research''"
| "TaskType_name real_time_info = ''real_time_info''"
| "TaskType_name translation = ''translation''"
| "TaskType_name summarization = ''summarization''"
| "TaskType_name casual_chat = ''casual_chat''"
| "TaskType_name data_extraction = ''data_extraction''"

text \<open>
  A task type read from \<open>rule.taskTypes[0]\<close> is \<open>undefined\<close> when the rule lists none:
  \<open>TaskType option\<close>, printed as \<open>undefined\<close> in a template string.
\<close>

fun taskType_string :: "TaskType option \<Rightarrow> string" where
  "taskType_string None = ''undefined''"
| "taskType_string (Some t) = TaskType_name t"

text \<open>
  \<open>getRequestContent\<close>: the last message's content (or the empty string), a blank, and
  \<open>selection || visibleText || ''\<close>, lower-cased. An empty string is falsy.
\<close>

definition or_string :: "string option \<Rightarrow> string \<Rightarrow> string" where
  "or_string a b = (case a of None \<Rightarrow> b | Some s \<Rightarrow> if s = [] then b else s)"

definition getRequestContent :: "AIRequest \<Rightarrow> string" where
  "getRequestContent request =
     (let msgs = messages request;
          lastContent = (if msgs = [] then None else Some (content (last msgs)));
          ctx = (case req_context request of
                   None \<Rightarrow> ''''
                 | Some c \<Rightarrow> or_string (selection c) (or_string (visibleText c) ''''))
      in toLowerCase (or_string lastContent '''' @ '' '' @ ctx))"

text \<open>The first rule whose pattern matches decides; otherwise the keyword table, in its
  declaration order; otherwise \<open>casual_chat\<close>.\<close>

definition taskKeywords :: "(TaskType \<times> string list) list" where
  "taskKeywords = [
     (creative_writing, [''write'', ''story'', ''creative'', ''poem'', ''narrative'']),
     (analysis, [''analyze'', ''analysis'', ''explain'', ''understand'']),
     (reasoning, [''reason'', ''logic'', ''deduce'', ''conclude'']),
     (code_generation, [''code'', ''program'', ''function'', ''implement'']),
     (debugging, [''debug'', ''fix'', ''error'', ''bug'']),
     (technical_docs, [''document'', ''api'', ''technical'', ''specification'']),
     (research, [''research'', ''find'', ''search'', ''information'']),
     (real_time_info, [''latest'', ''current'', ''today'', ''news'']),
     (translation, [''translate'', ''translation'', ''language'']),
     (summarization, [''summarize'', ''summary'', ''brief'', ''tldr'']),
     (casual_chat, [''chat'', ''talk'', ''hey'', ''hi'', ''hello'']),
     (data_extraction, [''extract'', ''parse'', ''data'', ''table''])]"

definition detectTaskType :: "AIRequest \<Rightarrow> TaskType option" where
  "detectTaskType request =
     (let c = getRequestContent request in
      case find (\<lambda>rule. pattern_matches (pattern rule) c) routingRules of
        Some rule \<Rightarrow> (case taskTypes rule of [] \<Rightarrow> None | t # _ \<Rightarrow> Some t)
      | None \<Rightarrow>
          (case find (\<lambda>(t, alts). RegExp_test alts c) taskKeywords of
             Some (t, _) \<Rightarrow> Some t
           | None \<Rightarrow> Some casual_chat))"

fun capabilities :: "AIProvider \<Rightarrow> TaskType \<Rightarrow> rat" where
  "capabilities claude creative_writing = 1.0"
| "capabilities claude analysis = 1.0"
| "capabilities claude reasoning = 1.0"
| "capabilities claude code_generation = 0.8"
| "capabilities claude debugging = 0.7"
| "capabilities claude technical_docs = 0.8"
| "capabilities claude research = 0.6"
| "capabilities claude real_time_info = 0.3"
| "capabilities claude translation = 0.8"
| "capabilities claude summarization = 0.9"
| "capabilities claude casual_chat = 0.8"
| "capabilities claude data_extraction = 0.7"
| "capabilities chatgpt creative_writing = 0.8"
| "capabilities chatgpt analysis = 0.8"
| "capabilities chatgpt reasoning = 0.8"
| "capabilities chatgpt code_generation = 1.0"
| "capabilities chatgpt debugging = 1.0"
| "capabilities chatgpt technical_docs = 1.0"
| "capabilities chatgpt research = 0.7"
| "capabilities chatgpt real_time_info = 0.4"
| "capabilities chatgpt translation = 0.9"
| "capabilities chatgpt summarization = 0.8"
| "capabilities chatgpt casual_chat = 0.8"
| "capabilities chatgpt data_extraction = 0.8"
| "capabilities gemini creative_writing = 0.7"
| "capabilities gemini analysis = 0.8"
| "capabilities gemini reasoning = 0.8"
| "capabilities gemini code_generation = 0.8"
| "capabilities gemini debugging = 0.7"
| "capabilities gemini technical_docs = 0.8"
| "capabilities gemini research = 1.0"
| "capabilities gemini real_time_info = 1.0"
| "capabilities gemini translation = 0.9"
| "capabilities gemini summarization = 0.8"
| "capabilities gemini casual_chat = 0.7"
| "capabilities gemini data_extraction = 0.9"
| "capabilities grok creative_writing = 0.6"
| "capabilities grok analysis = 0.6"
| "capabilities grok reasoning = 0.6"
| "capabilities grok code_generation = 0.6"
| "capabilities grok debugging = 0.5"
| "capabilities grok technical_docs = 0.6"
| "capabilities grok research = 0.7"
| "capabilities grok real_time_info = 0.9"
| "capabilities grok translation = 0.6"
| "capabilities grok summarization = 0.7"
| "capabilities grok casual_chat = 1.0"
| "capabilities grok data_extraction = 0.6"

text \<open>\<open>x || d\<close> on numbers: zero is falsy.\<close>

definition or_number :: "rat option \<Rightarrow> rat \<Rightarrow> rat" where
  "or_number a d = (case a of None \<Rightarrow> d | Some x \<Rightarrow> if x = 0 then d else x)"

definition calculateCapabilityMatch :: "AIProvider \<Rightarrow> TaskType option \<Rightarrow> AIRequest \<Rightarrow> rat" where
  "calculateCapabilityMatch p taskType request =
     (let c = getRequestContent request;
          matchingRule = find (\<lambda>rule. rule_provider rule = p \<and> pattern_matches (pattern rule) c)
                              routingRules
      in case matchingRule of
           Some _ \<Rightarrow> 1.0
         | None \<Rightarrow> or_number (map_option (capabilities p) taskType) 0.5)"

definition calculateUserPreference :: "AIRouter \<Rightarrow> AIProvider \<Rightarrow> TaskType option \<Rightarrow> rat" where
  "calculateUserPreference r p taskType =
     (let preferenceKey = taskType_string taskType @ ''-preference'' in
      case userPreferences r preferenceKey of
        Some preferred \<Rightarrow> (if preferred = p then 1.0 else 0.3)
      | None \<Rightarrow> or_number (map_option successRate (performanceMetrics r p)) 0.5)"

text \<open>\<open>estimateTokens\<close>: \<open>Math.ceil(content.length / 4)\<close> and \<open>request.maxTokens || 1000\<close>.\<close>

definition estimateTokens :: "AIRequest \<Rightarrow> int \<times> int" where
  "estimateTokens request =
     (let c = getRequestContent request;
          inTokens = (int (length c) + 3) div 4;
          outTokens = (case maxTokens request of
                         None \<Rightarrow> 1000
                       | Some m \<Rightarrow> if m = 0 then 1000 else m)
      in (inTokens, outTokens))"

fun costs :: "AIProvider \<Rightarrow> rat \<times> rat" where
  "costs claude = (0.8, 2.4)"
| "costs chatgpt = (1.0, 3.0)"
| "costs gemini = (0.5, 1.5)"
| "costs grok = (0.3, 0.9)"

definition calculateCostEfficiency :: "AIProvider \<Rightarrow> AIRequest \<Rightarrow> rat" where
  "calculateCostEfficiency p request =
     (let (inTokens, outTokens) = estimateTokens request;
          (cin, cout) = costs p;
          estimatedCost = (of_int inTokens * cin + of_int outTokens * cout) / 1000;
          maxCost = 5
      in max 0 (1 - estimatedCost / maxCost))"

definition calculateResponseSpeed :: "AIRouter \<Rightarrow> AIProvider \<Rightarrow> rat" where
  "calculateResponseSpeed r p =
     (case performanceMetrics r p of
        None \<Rightarrow> 0.5
      | Some m \<Rightarrow> (let maxTime = 5000 in max 0 (1 - avgResponseTime m / maxTime)))"

definition calculateProviderScore ::
    "AIRouter \<Rightarrow> AIProvider \<Rightarrow> AIRequest \<Rightarrow> TaskType option \<Rightarrow> RoutingScore" where
  "calculateProviderScore r p request taskType =
     (let fs = \<lparr>capabilityMatch = calculateCapabilityMatch p taskType request,
                userPreference = calculateUserPreference r p taskType,
                costEfficiency = calculateCostEfficiency p request,
                responseSpeed = calculateResponseSpeed r p\<rparr>;
          s = capabilityMatch fs * 0.4 + userPreference fs * 0.3
              + costEfficiency fs * 0.2 + responseSpeed fs * 0.1
      in \<lparr>score_provider = p, score = s, factors = fs\<rparr>)"

text \<open>The loop over the four providers, disabled ones skipped.\<close>

definition calculateScores :: "AIRouter \<Rightarrow> ExtensionSettings \<Rightarrow> AIRequest \<Rightarrow> RoutingScore list" where
  "calculateScores r settings request =
     (let taskType = detectTaskType request in
      map (\<lambda>p. calculateProviderScore r p request taskType)
          (filter (\<lambda>p. enabled (providers settings p)) [claude, chatgpt, gemini, grok]))"

text \<open>
  \<open>scores.sort((a, b) => b.score - a.score)\<close> is a stable sort by descending score.
  \<open>sorted[0].provider\<close> throws a \<open>TypeError\<close> when the array is empty.
\<close>

definition route :: "AIRouter \<Rightarrow> ExtensionSettings \<Rightarrow> AIRequest \<Rightarrow> JsError + AIProvider" where
  "route r settings request =
     (let scores = calculateScores r settings request;
          sorted = sort_key (\<lambda>s. - score s) scores
      in case sorted of
           [] \<Rightarrow> Inl (TypeError ''Cannot read properties of undefined (reading 'provider')'')
         | best # _ \<Rightarrow> Inr (score_provider best))"

section \<open>Stored data and the response cache (src/types/storage.ts, src/services/storage.ts)\<close>

record CachedResponse =
  cr_key :: string
  response :: AIResponse
  cr_timestamp :: int
  hits :: int
  cr_provider :: AIProvider

text \<open>
  \<open>entries\<close> is a JavaScript \<open>Map\<close>: an association list in insertion order with distinct
  keys. \<open>set\<close> replaces the value of a present key where it stands and appends a new key;
  \<open>delete\<close> removes the key.
\<close>

record ResponseCache =
  entries :: "(string \<times> CachedResponse) list"
  maxSize :: int
  ttl :: int

fun Map_get :: "('k \<times> 'v) list \<Rightarrow> 'k \<Rightarrow> 'v option" where
  "Map_get [] k = None"
| "Map_get ((k', v) # m) k = (if k' = k then Some v else Map_get m k)"

fun Map_set :: "('k \<times> 'v) list \<Rightarrow> 'k \<Rightarrow> 'v \<Rightarrow> ('k \<times> 'v) list" where
  "Map_set [] k v = [(k, v)]"
| "Map_set ((k', v') # m) k v = (if k' = k then (k, v) # m else (k', v') # Map_set m k v)"

definition Map_delete :: "('k \<times> 'v) list \<Rightarrow> 'k \<Rightarrow> ('k \<times> 'v) list" where
  "Map_delete m k = filter (\<lambda>kv. fst kv \<noteq> k) m"

record ProviderUsage =
  pu_requests :: int
  pu_tokens :: "int \<times> int"
  pu_cost :: rat
  errors :: int
  averageResponseTime :: rat

record DailyUsage =
  date :: string
  requests :: int
  du_tokens :: int
  du_cost :: rat
  du_providers :: "AIProvider \<rightharpoonup> int"

record UsageAlert =
  alert_id :: string
  alert_message :: string
  alert_timestamp :: int
  dismissed :: bool

record UsageStats =
  totalRequests :: int
  us_totalTokens :: "int \<times> int"
  totalCost :: rat
  byProvider :: "AIProvider \<rightharpoonup> ProviderUsage"
  dailyUsage :: "DailyUsage list"
  monthlyBudget :: "rat option"
  alerts :: "UsageAlert list"

text \<open>
  The stored data that the dispatch path reads and writes through \<open>storageService.get\<close> and
  \<open>storageService.set\<close>: one cell per key, a read returning the value last written (the
  in-memory copy that \<open>StorageService\<close> keeps of each key holds the very object that was
  written). Reads and writes of the browser storage are taken to succeed. \<open>apiKeys\<close> is
  what \<open>getAPIKey(provider, masterPassword)\<close> yields: the decrypted key, or nothing when
  no key is stored or decryption fails.
\<close>

record Storage =
  settings :: "ExtensionSettings option"
  apiKeys :: "AIProvider \<rightharpoonup> string"
  usage_data :: "UsageStats option"
  cache :: "ResponseCache option"

definition getDefaultSettings :: ExtensionSettings where
  "getDefaultSettings =
     \<lparr>general = \<lparr>defaultProvider = claude, autoRouting = True\<rparr>,
      providers = (\<lambda>p. case p of
          claude \<Rightarrow> \<lparr>enabled = True, settings_model = ''claude-3-sonnet-20240229'',
                      settings_temperature = 0.7, settings_maxTokens = 4000\<rparr>
        | chatgpt \<Rightarrow> \<lparr>enabled = True, settings_model = ''gpt-4-turbo-preview'',
                       settings_temperature = 0.7, settings_maxTokens = 4000\<rparr>
        | gemini \<Rightarrow> \<lparr>enabled = True, settings_model = ''gemini-pro'',
                      settings_temperature = 0.7, settings_maxTokens = 4000\<rparr>
        | grok \<Rightarrow> \<lparr>enabled = True, settings_model = ''grok-beta'',
                    settings_temperature = 0.7, settings_maxTokens = 4000\<rparr>),
      advanced = \<lparr>concurrentRequests = 3, cacheResponses = True, cacheTTL = 3600000\<rparr>\<rparr>"

definition getSettings :: "Storage \<Rightarrow> ExtensionSettings" where
  "getSettings s = (case settings s of None \<Rightarrow> getDefaultSettings | Some x \<Rightarrow> x)"

definition getAPIKey :: "Storage \<Rightarrow> AIProvider \<Rightarrow> string option" where
  "getAPIKey s p = apiKeys s p"

definition removeCachedResponse :: "string \<Rightarrow> Storage \<Rightarrow> Storage" where
  "removeCachedResponse k s =
     (case cache s of
        None \<Rightarrow> s
      | Some c \<Rightarrow> s\<lparr>cache := Some (c\<lparr>entries := Map_delete (entries c) k\<rparr>)\<rparr>)"

text \<open>
  \<open>getCachedResponse(key)\<close> at the clock reading \<open>now\<close>: a miss when there is no cache or no
  entry; an entry older than the time to live is removed and is a miss; otherwise the
  entry's \<open>hits\<close> is incremented where it stands, the cache is written back and the entry
  returned.
\<close>

definition getCachedResponse :: "string \<Rightarrow> int \<Rightarrow> Storage \<Rightarrow> CachedResponse option \<times> Storage" where
  "getCachedResponse k now s =
     (case cache s of
        None \<Rightarrow> (None, s)
      | Some c \<Rightarrow>
          (case Map_get (entries c) k of
             None \<Rightarrow> (None, s)
           | Some entry \<Rightarrow>
               if now - cr_timestamp entry > ttl c then (None, removeCachedResponse k s)
               else (let entry' = entry\<lparr>hits := hits entry + 1\<rparr>;
                         c' = c\<lparr>entries := Map_set (entries c) k entry'\<rparr>
                     in (Some entry', s\<lparr>cache := Some c'\<rparr>))))"

text \<open>
  \<open>setCachedResponse(key, response, provider)\<close> at the clock reading \<open>now\<close>. When the map has
  grown beyond \<open>maxSize\<close>, the entries are sorted by timestamp (\<open>Array.prototype.sort\<close> is
  stable) and the first \<open>size - maxSize\<close> of them are deleted by key. (The conversion of
  an \<open>entries\<close> object that is not a \<open>Map\<close> does not arise: \<open>entries\<close> is a \<open>Map\<close> here.)
\<close>

definition enforceMaxSize :: "ResponseCache \<Rightarrow> ResponseCache" where
  "enforceMaxSize c =
     (if int (length (entries c)) > maxSize c
      then (let sortedEntries = sort_key (\<lambda>kv. cr_timestamp (snd kv)) (entries c);
                toRemove = take (nat (int (length (entries c)) - maxSize c)) sortedEntries
            in c\<lparr>entries := foldl (\<lambda>m kv. Map_delete m (fst kv)) (entries c) toRemove\<rparr>)
      else c)"

definition setCachedResponse :: "string \<Rightarrow> AIResponse \<Rightarrow> AIProvider \<Rightarrow> int \<Rightarrow> Storage \<Rightarrow> Storage" where
  "setCachedResponse k r p now s =
     (let c = (case cache s of
                 None \<Rightarrow> \<lparr>entries = [], maxSize = 100, ttl = 3600000\<rparr>
               | Some c \<Rightarrow> c);
          entry = \<lparr>cr_key = k, response = r, cr_timestamp = now, hits = 0, cr_provider = p\<rparr>;
          c' = c\<lparr>entries := Map_set (entries c) k entry\<rparr>
      in s\<lparr>cache := Some (enforceMaxSize c')\<rparr>)"

definition clearCache :: "Storage \<Rightarrow> Storage" where
  "clearCache s = s\<lparr>cache := None\<rparr>"

text \<open>
  The cache states the service produces: from a storage without a cache, by the four cache
  operations, the clock never running backwards. The first argument is the latest clock
  reading.
\<close>

inductive cache_reachable :: "int \<Rightarrow> Storage \<Rightarrow> bool" where
  initial: "cache s = None \<Longrightarrow> cache_reachable t s"
| after_set: "cache_reachable t s \<Longrightarrow> t \<le> t' \<Longrightarrow> cache_reachable t' (setCachedResponse k r p t' s)"
| after_get: "cache_reachable t s \<Longrightarrow> t \<le> t' \<Longrightarrow> cache_reachable t' (snd (getCachedResponse k t' s))"
| after_remove: "cache_reachable t s \<Longrightarrow> t \<le> t' \<Longrightarrow> cache_reachable t' (removeCachedResponse k s)"
| after_clear: "cache_reachable t s \<Longrightarrow> t \<le> t' \<Longrightarrow> cache_reachable t' (clearCache s)"

code_pred cache_reachable .

text \<open>A run of insertions \<open>(key, response, provider, clock reading)\<close>, in order.\<close>

fun insertAll :: "(string \<times> AIResponse \<times> AIProvider \<times> int) list \<Rightarrow> Storage \<Rightarrow> Storage" where
  "insertAll [] s = s"
| "insertAll ((k, r, p, t) # xs) s = insertAll xs (setCachedResponse k r p t s)"

text \<open>The cache as the storage holds it; a storage without a cache gets one of size 100.\<close>

definition cache_entries :: "Storage \<Rightarrow> (string \<times> CachedResponse) list" where
  "cache_entries s = (case cache s of None \<Rightarrow> [] | Some c \<Rightarrow> entries c)"

definition cache_maxSize :: "Storage \<Rightarrow> int" where
  "cache_maxSize s = (case cache s of None \<Rightarrow> 100 | Some c \<Rightarrow> maxSize c)"

text \<open>The entry that an insertion creates, and the clock reading of an insertion.\<close>

fun entry_of :: "string \<times> AIResponse \<times> AIProvider \<times> int \<Rightarrow> string \<times> CachedResponse" where
  "entry_of (k, r, p, t) =
     (k, \<lparr>cr_key = k, response = r, cr_timestamp = t, hits = 0, cr_provider = p\<rparr>)"

fun insertion_time :: "string \<times> AIResponse \<times> AIProvider \<times> int \<Rightarrow> int" where
  "insertion_time (k, r, p, t) = t"

text \<open>
  The invariant of the reachable cache states: the size and the time to live are the
  constants of \<open>setCachedResponse\<close>, the map is within its size, its keys are distinct and
  no entry is stamped later than the latest clock reading.
\<close>

definition cache_inv :: "int \<Rightarrow> Storage \<Rightarrow> bool" where
  "cache_inv t s =
     (case cache s of
        None \<Rightarrow> True
      | Some c \<Rightarrow> maxSize c = 100 \<and> ttl c = 3600000 \<and> int (length (entries c)) \<le> 100
                 \<and> distinct (map fst (entries c))
                 \<and> (\<forall>kv \<in> set (entries c). cr_timestamp (snd kv) \<le> t))"

section \<open>Numbers and dates as text\<close>

definition digitChar :: "nat \<Rightarrow> char" where
  "digitChar d = char_of (48 + d)"

text \<open>The decimal numeral of a natural number, as a template string prints it.\<close>

fun natToString :: "nat \<Rightarrow> string" where
  "natToString n =
     (if n < 10 then [digitChar n] else natToString (n div 10) @ [digitChar (n mod 10)])"

declare natToString.simps [simp del]

definition padStart :: "nat \<Rightarrow> string \<Rightarrow> string" where
  "padStart n s = replicate (n - length s) (CHR ''0'') @ s"

text \<open>
  The date part of \<open>Date.prototype.toISOString\<close>, which is in UTC: the proleptic Gregorian
  date of the day \<open>ms div 86400000\<close> after 1970-01-01, the year in four digits (a sign and
  six digits outside 0..9999).
\<close>

definition civil_from_days :: "int \<Rightarrow> int \<times> int \<times> int" where
  "civil_from_days z0 =
     (let z = z0 + 719468;
          era = z div 146097;
          doe = z - era * 146097;
          yoe = (doe - doe div 1460 + doe div 36524 - doe div 146096) div 365;
          y = yoe + era * 400;
          doy = doe - (365 * yoe + yoe div 4 - yoe div 100);
          mp = (5 * doy + 2) div 153;
          d = doy - (153 * mp + 2) div 5 + 1;
          m = (if mp < 10 then mp + 3 else mp - 9)
      in (if m \<le> 2 then y + 1 else y, m, d))"

definition yearString :: "int \<Rightarrow> string" where
  "yearString y =
     (if 0 \<le> y \<and> y \<le> 9999 then padStart 4 (natToString (nat y))
      else (if y < 0 then ''-'' else ''+'') @ padStart 6 (natToString (nat \<bar>y\<bar>)))"

definition toISODate :: "int \<Rightarrow> string" where
  "toISODate ms =
     (let (y, m, d) = civil_from_days (ms div 86400000)
      in yearString y @ ''-'' @ padStart 2 (natToString (nat m)) @ ''-''
         @ padStart 2 (natToString (nat d)))"

text \<open>
  The calendar date of an instant in a local time zone, for comparison with the date the
  code uses: \<open>offset\<close> is \<open>Date.prototype.getTimezoneOffset()\<close>, the minutes that UTC is
  ahead of local time.
\<close>

definition local_calendar_date :: "int \<Rightarrow> int \<Rightarrow> string" where
  "local_calendar_date offset ms = toISODate (ms - offset * 60000)"

section \<open>The provider adapters (ClaudeAPI, ChatGPTAPI, GeminiAPI, GrokAPI)\<close>

text \<open>
  \<open>sendRequest\<close> is one \<open>try\<close> block (translate the request, POST it, translate the
  answer) and a \<open>catch\<close> that calls \<open>handleError\<close>. What the \<open>try\<close> block does is the
  environment's: it returns a response or throws. A thrown value either carries an HTTP
  response (\<open>'response' in error && error.response\<close>: its status and
  \<open>data?.error?.message\<close>) or only a message.
\<close>

datatype CaughtError = ResponseError nat "string option" | PlainError string

datatype TryOutcome = Returned AIResponse | Thrown CaughtError

definition errorResponse :: "AIProvider \<Rightarrow> string \<Rightarrow> AIRequest \<Rightarrow> string \<Rightarrow> AIResponse" where
  "errorResponse p defaultModel request errorMessage =
     \<lparr>resp_provider = p, resp_model = or_string (Some (model request)) defaultModel,
      resp_content = '''', usage = None, cost = None, error = Some errorMessage,
      streaming = None, responseTime = None\<rparr>"

definition httpStatusMessage :: "nat \<Rightarrow> string option \<Rightarrow> string" where
  "httpStatusMessage status dataMessage =
     or_string dataMessage (''HTTP '' @ natToString status @ '' error'')"

definition ClaudeAPI_handleError :: "CaughtError \<Rightarrow> AIRequest \<Rightarrow> AIResponse" where
  "ClaudeAPI_handleError e request =
     errorResponse claude ''claude-3-sonnet-20240229'' request
       (case e of
          ResponseError status d \<Rightarrow>
            if status = 401 then ''Invalid API key''
            else if status = 429 then ''Rate limit exceeded''
            else if status = 500 \<or> status = 502 \<or> status = 503
              then ''Claude API is temporarily unavailable''
            else httpStatusMessage status d
        | PlainError m \<Rightarrow> m)"

definition ChatGPTAPI_handleError :: "CaughtError \<Rightarrow> AIRequest \<Rightarrow> AIResponse" where
  "ChatGPTAPI_handleError e request =
     errorResponse chatgpt ''gpt-4-turbo-preview'' request
       (case e of
          ResponseError status d \<Rightarrow>
            if status = 401 then ''Invalid API key''
            else if status = 429 then ''Rate limit exceeded. Please try again later.''
            else if status = 500 \<or> status = 502 \<or> status = 503
              then ''OpenAI API is temporarily unavailable''
            else if status = 400 then or_string d ''Bad request''
            else httpStatusMessage status d
        | PlainError m \<Rightarrow> m)"

definition GeminiAPI_handleError :: "CaughtError \<Rightarrow> AIRequest \<Rightarrow> AIResponse" where
  "GeminiAPI_handleError e request =
     errorResponse gemini ''gemini-pro'' request
       (case e of
          ResponseError status d \<Rightarrow>
            if status = 400 then or_string d ''Invalid request''
            else if status = 401 \<or> status = 403 then ''Invalid or missing API key''
            else if status = 404 then ''Model not found''
            else if status = 429 then ''Rate limit exceeded. Please try again later.''
            else if status = 500 \<or> status = 502 \<or> status = 503
              then ''Gemini API is temporarily unavailable''
            else httpStatusMessage status d
        | PlainError m \<Rightarrow> m)"

definition GrokAPI_handleError :: "CaughtError \<Rightarrow> AIRequest \<Rightarrow> AIResponse" where
  "GrokAPI_handleError e request =
     errorResponse grok ''grok-beta'' request
       (case e of
          ResponseError status d \<Rightarrow>
            if status = 401 then ''Invalid API key''
            else if status = 403 then ''Access denied. Check your API key permissions.''
            else if status = 429
              then ''Rate limit exceeded. Grok has fast responses but limited rate.''
            else if status = 500 \<or> status = 502 \<or> status = 503
              then ''Grok API is temporarily unavailable''
            else if status = 400 then or_string d ''Bad request''
            else httpStatusMessage status d
        | PlainError m \<Rightarrow> m)"

datatype Adapter = ClaudeAPI | ChatGPTAPI | GeminiAPI | GrokAPI

fun handleError :: "Adapter \<Rightarrow> CaughtError \<Rightarrow> AIRequest \<Rightarrow> AIResponse" where
  "handleError ClaudeAPI = ClaudeAPI_handleError"
| "handleError ChatGPTAPI = ChatGPTAPI_handleError"
| "handleError GeminiAPI = GeminiAPI_handleError"
| "handleError GrokAPI = GrokAPI_handleError"

text \<open>\<open>sendRequest(request, signal)\<close> of an adapter, given what its \<open>try\<close> block did.\<close>

definition sendRequest :: "Adapter \<Rightarrow> TryOutcome \<Rightarrow> AIRequest \<Rightarrow> AIResponse" where
  "sendRequest a outcome request =
     (case outcome of
        Returned r \<Rightarrow> r
      | Thrown e \<Rightarrow> handleError a e request)"

section \<open>The dispatch manager (class APIManager, src/background/apiManager.ts)\<close>

record AbortController =
  aborted :: bool

record APIManager =
  mgr_providers :: "AIProvider \<rightharpoonup> Adapter"
  activeRequests :: "string \<rightharpoonup> AbortController"

definition APIManager_new :: APIManager where
  "APIManager_new =
     \<lparr>mgr_providers = [claude \<mapsto> ClaudeAPI, chatgpt \<mapsto> ChatGPTAPI,
                       gemini \<mapsto> GeminiAPI, grok \<mapsto> GrokAPI],
      activeRequests = Map.empty\<rparr>"

text \<open>\<open>{...request, provider, apiKey, settings}\<close>\<close>

record APIRequestWithConfig =
  request :: AIRequest
  apiKey :: string
  cfg_settings :: ProviderSettings

text \<open>
  What the environment contributes to one call of \<open>APIManager.sendRequest\<close>: the generated
  request id, the two clock readings, what other tasks do to \<open>activeRequests\<close> while this
  call is suspended (cancellations, other dispatches), what the adapter's \<open>try\<close> block
  does, and for a streamed request the chunks handed to the callback, each with the value
  of \<open>signal.aborted\<close> at that moment, and how \<open>streamRequest\<close> settles.
\<close>

record DispatchEnv =
  requestId :: string
  startTime :: int
  endTime :: int
  interleaved :: "(string \<rightharpoonup> AbortController) \<Rightarrow> (string \<rightharpoonup> AbortController)"
  outcome :: TryOutcome
  chunks :: "(StreamChunk \<times> bool) list"
  streamResult :: "JsError + AIResponse"

fun AIProvider_name :: "AIProvider \<Rightarrow> string" where
  "AIProvider_name claude = ''claude''"
| "AIProvider_name chatgpt = ''chatgpt''"
| "AIProvider_name gemini = ''gemini''"
| "AIProvider_name grok = ''grok''"

text \<open>
  \<open>handleStreamingRequest\<close>: a chunk that arrives after the abort rejects the promise and
  is dropped, any other chunk is appended to the content and forwarded. The promise settles
  once: a rejection from the callback comes before the settling of \<open>streamRequest\<close>.
\<close>

definition handleStreamingRequest :: "DispatchEnv \<Rightarrow> JsError + AIResponse" where
  "handleStreamingRequest env =
     (let fullContent = concat (map (\<lambda>c. delta (fst c)) (filter (\<lambda>c. \<not> snd c) (chunks env)))
      in if list_ex snd (chunks env) then Inl (Error ''Request was cancelled'')
         else (case streamResult env of
                 Inl e \<Rightarrow> Inl e
               | Inr finalResponse \<Rightarrow>
                   Inr (finalResponse\<lparr>resp_content := fullContent, streaming := Some True\<rparr>)))"

text \<open>
  \<open>APIManager.sendRequest\<close>. An unknown provider throws before anything is registered.
  (\<open>provider.configure\<close> only stores the key and the settings in the adapter, and the
  \<open>STREAM_CHUNK\<close> and \<open>STREAM_END\<close> messages go to the active tab: neither is part of the
  state here.)
  Otherwise the id is registered, the adapter runs (other tasks may change the map
  meanwhile), an \<open>AbortError\<close> is rethrown as \<open>Request was cancelled\<close>, and the \<open>finally\<close>
  block deletes the id.
\<close>

definition APIManager_sendRequest ::
    "APIManager \<Rightarrow> DispatchEnv \<Rightarrow> APIRequestWithConfig \<Rightarrow> (JsError + AIResponse) \<times> APIManager" where
  "APIManager_sendRequest mgr env req =
     (case (case provider (request req) of None \<Rightarrow> None | Some p \<Rightarrow> mgr_providers mgr p) of
        None \<Rightarrow>
          (Inl (Error (''Unknown provider: ''
                       @ (case provider (request req) of
                            None \<Rightarrow> ''undefined'' | Some p \<Rightarrow> AIProvider_name p))), mgr)
      | Some adapter \<Rightarrow>
          (let registered = (activeRequests mgr)(requestId env \<mapsto> \<lparr>aborted = False\<rparr>);
               during = interleaved env registered;
               result = (if stream (request req) = Some True then handleStreamingRequest env
                         else Inr (sendRequest adapter (outcome env) (request req)));
               settled = (case result of
                            Inr r \<Rightarrow> Inr (r\<lparr>responseTime := Some (endTime env - startTime env)\<rparr>)
                          | Inl e \<Rightarrow> if err_name e = ''AbortError''
                                     then Inl (Error ''Request was cancelled'') else Inl e)
           in (settled, mgr\<lparr>activeRequests := during(requestId env := None)\<rparr>)))"

definition cancelRequest :: "APIManager \<Rightarrow> string \<Rightarrow> APIManager" where
  "cancelRequest mgr rid =
     (case activeRequests mgr rid of
        None \<Rightarrow> mgr
      | Some controller \<Rightarrow> mgr\<lparr>activeRequests := (activeRequests mgr)(rid := None)\<rparr>)"

definition cancelAllRequests :: "APIManager \<Rightarrow> APIManager" where
  "cancelAllRequests mgr = mgr\<lparr>activeRequests := Map.empty\<rparr>"

section \<open>Usage accounting (trackUsage, src/background/index.ts)\<close>

definition emptyUsage :: UsageStats where
  "emptyUsage =
     \<lparr>totalRequests = 0, us_totalTokens = (0, 0), totalCost = 0, byProvider = Map.empty,
      dailyUsage = [], monthlyBudget = None, alerts = []\<rparr>"

definition emptyProviderUsage :: ProviderUsage where
  "emptyProviderUsage =
     \<lparr>pu_requests = 0, pu_tokens = (0, 0), pu_cost = 0, errors = 0, averageResponseTime = 0\<rparr>"

text \<open>\<open>response.cost || 0\<close>, the token counts of \<open>response.usage\<close> (nothing without it), and
  the truthiness of \<open>response.error\<close>.\<close>

definition costOrZero :: "AIResponse \<Rightarrow> rat" where
  "costOrZero r = (case cost r of None \<Rightarrow> 0 | Some c \<Rightarrow> c)"

definition usedTokens :: "AIResponse \<Rightarrow> int \<times> int" where
  "usedTokens r = (case usage r of None \<Rightarrow> (0, 0) | Some u \<Rightarrow> (inputTokens u, outputTokens u))"

definition hasError :: "AIResponse \<Rightarrow> bool" where
  "hasError r = (case error r of None \<Rightarrow> False | Some m \<Rightarrow> m \<noteq> [])"

definition addTokens :: "int \<times> int \<Rightarrow> int \<times> int \<Rightarrow> int \<times> int" where
  "addTokens a b = (fst a + fst b, snd a + snd b)"

text \<open>The first element that satisfies \<open>P\<close>, changed where it stands (\<open>find\<close>, then a
  mutation of the object found).\<close>

fun update_first :: "('a \<Rightarrow> bool) \<Rightarrow> ('a \<Rightarrow> 'a) \<Rightarrow> 'a list \<Rightarrow> 'a list" where
  "update_first P f [] = []"
| "update_first P f (x # xs) = (if P x then f x # xs else x # update_first P f xs)"

text \<open>\<open>xs.slice(-n)\<close>: the last \<open>n\<close> elements.\<close>

definition slice_last :: "nat \<Rightarrow> 'a list \<Rightarrow> 'a list" where
  "slice_last n xs = drop (length xs - n) xs"

text \<open>
  \<open>trackUsage(provider, response)\<close> at the clock reading \<open>now\<close>. A bucket of today that
  exists gets one more request, the cost and one more count for the provider; otherwise a
  new bucket is pushed. Then \<open>dailyUsage.slice(-30)\<close>. The budget alert that follows only
  appends to \<open>alerts\<close>; it reads dates back in local time and is not modelled, \<open>alerts\<close>
  is left as it was.
\<close>

definition trackUsage :: "AIProvider \<Rightarrow> AIResponse \<Rightarrow> int \<Rightarrow> Storage \<Rightarrow> Storage" where
  "trackUsage p r now s =
     (let u = (case usage_data s of None \<Rightarrow> emptyUsage | Some u \<Rightarrow> u);
          pu = (case byProvider u p of None \<Rightarrow> emptyProviderUsage | Some x \<Rightarrow> x);
          pu' = pu\<lparr>pu_requests := pu_requests pu + 1,
                   pu_tokens := addTokens (pu_tokens pu) (usedTokens r),
                   pu_cost := pu_cost pu + costOrZero r,
                   errors := (if hasError r then errors pu + 1 else errors pu)\<rparr>;
          today = toISODate now;
          daily = (case find (\<lambda>d. date d = today) (dailyUsage u) of
                     Some _ \<Rightarrow>
                       update_first (\<lambda>d. date d = today)
                         (\<lambda>d. d\<lparr>requests := requests d + 1,
                                du_cost := du_cost d + costOrZero r,
                                du_providers := (du_providers d)
                                  (p \<mapsto> (case du_providers d p of None \<Rightarrow> 0 | Some n \<Rightarrow> n) + 1)\<rparr>)
                         (dailyUsage u)
                   | None \<Rightarrow>
                       dailyUsage u @
                         [\<lparr>date = today, requests = 1,
                           du_tokens = (case usage r of None \<Rightarrow> 0 | Some x \<Rightarrow> totalTokens x),
                           du_cost = costOrZero r, du_providers = [p \<mapsto> 1]\<rparr>]);
          u' = u\<lparr>totalRequests := totalRequests u + 1,
                 us_totalTokens := addTokens (us_totalTokens u) (usedTokens r),
                 totalCost := totalCost u + costOrZero r,
                 byProvider := (byProvider u)(p \<mapsto> pu'),
                 dailyUsage := slice_last 30 daily\<rparr>
      in s\<lparr>usage_data := Some u'\<rparr>)"

definition stored_dailyUsage :: "Storage \<Rightarrow> DailyUsage list" where
  "stored_dailyUsage s = (case usage_data s of None \<Rightarrow> [] | Some u \<Rightarrow> dailyUsage u)"

section \<open>The dispatch entry point (sendToAI, src/background/index.ts)\<close>

text \<open>
  The object that \<open>generateCacheKey\<close> serialises. \<open>JSON.stringify\<close> and \<open>btoa\<close> are the
  platform's: \<open>encode\<close> stands for \<open>btoa(JSON.stringify(_))\<close>, which throws on a character
  beyond Latin-1.
\<close>

record CacheKeyObject =
  key_provider :: "AIProvider option"
  key_model :: string
  key_messages :: "AIMessage list"
  key_temperature :: "rat option"
  key_maxTokens :: "int option"

definition generateCacheKey ::
    "(CacheKeyObject \<Rightarrow> JsError + string) \<Rightarrow> AIRequest \<Rightarrow> JsError + string" where
  "generateCacheKey encode req =
     encode \<lparr>key_provider = provider req, key_model = model req, key_messages = messages req,
             key_temperature = temperature req, key_maxTokens = maxTokens req\<rparr>"

record World =
  storage :: Storage
  aiRouter :: AIRouter
  apiManager :: APIManager

record Env =
  encode :: "CacheKeyObject \<Rightarrow> JsError + string"
  lookupTime :: int
  storeTime :: int
  usageTime :: int
  dispatch :: DispatchEnv

text \<open>
  The provider that \<open>sendToAI\<close> dispatches to (``Determine which provider to use''): the
  request's own, else the router's when auto-routing is on, else the default provider.
\<close>

definition sendToAI_provider ::
    "AIRouter \<Rightarrow> ExtensionSettings \<Rightarrow> AIRequest \<Rightarrow> JsError + AIProvider" where
  "sendToAI_provider r st req =
     (case provider req of
        Some p \<Rightarrow> Inr p
      | None \<Rightarrow> if autoRouting (general st) then route r st req
                else Inr (defaultProvider (general st)))"

text \<open>``Check cache if enabled'': the key is made from the request as it came in.\<close>

definition sendToAI_cacheLookup ::
    "Env \<Rightarrow> ExtensionSettings \<Rightarrow> AIRequest \<Rightarrow> Storage \<Rightarrow> (JsError + CachedResponse option) \<times> Storage" where
  "sendToAI_cacheLookup env st req s =
     (if cacheResponses (advanced st)
      then (case generateCacheKey (encode env) req of
              Inl e \<Rightarrow> (Inl e, s)
            | Inr cacheKey \<Rightarrow>
                (let (cached, s') = getCachedResponse cacheKey (lookupTime env) s
                 in (Inr cached, s')))
      else (Inr None, s))"

text \<open>``Cache response if enabled'': only a response without an error is stored.\<close>

definition sendToAI_cacheStore ::
    "Env \<Rightarrow> ExtensionSettings \<Rightarrow> AIRequest \<Rightarrow> AIResponse \<Rightarrow> AIProvider \<Rightarrow> Storage \<Rightarrow> JsError + Storage" where
  "sendToAI_cacheStore env st req r p s =
     (if cacheResponses (advanced st) \<and> \<not> hasError r
      then (case generateCacheKey (encode env) req of
              Inl e \<Rightarrow> Inl e
            | Inr cacheKey \<Rightarrow> Inr (setCachedResponse cacheKey r p (storeTime env) s))
      else Inr s)"

text \<open>The body of the \<open>try\<close> block of \<open>sendToAI\<close>: what it returns or throws, and the state.\<close>

definition sendToAI_try :: "Env \<Rightarrow> AIRequest \<Rightarrow> World \<Rightarrow> (JsError + AIResponse) \<times> World" where
  "sendToAI_try env req w =
     (let st = getSettings (storage w) in
      case sendToAI_provider (aiRouter w) st req of
        Inl e \<Rightarrow> (Inl e, w)
      | Inr p \<Rightarrow>
          (case getAPIKey (storage w) p of
             None \<Rightarrow> (Inl (Error (''API key not found for '' @ AIProvider_name p)), w)
           | Some k \<Rightarrow>
               if k = [] then (Inl (Error (''API key not found for '' @ AIProvider_name p)), w)
               else
                 (case sendToAI_cacheLookup env st req (storage w) of
                    (Inl e, s1) \<Rightarrow> (Inl e, w\<lparr>storage := s1\<rparr>)
                  | (Inr (Some cached), s1) \<Rightarrow> (Inr (response cached), w\<lparr>storage := s1\<rparr>)
                  | (Inr None, s1) \<Rightarrow>
                      (case APIManager_sendRequest (apiManager w) (dispatch env)
                              \<lparr>request = req\<lparr>provider := Some p\<rparr>, apiKey = k,
                               cfg_settings = providers st p\<rparr> of
                         (Inl e, m1) \<Rightarrow> (Inl e, w\<lparr>storage := s1, apiManager := m1\<rparr>)
                       | (Inr r, m1) \<Rightarrow>
                           (case sendToAI_cacheStore env st req r p s1 of
                              Inl e \<Rightarrow> (Inl e, w\<lparr>storage := s1, apiManager := m1\<rparr>)
                            | Inr s2 \<Rightarrow>
                                (Inr r, w\<lparr>storage := trackUsage p r (usageTime env) s2,
                                          apiManager := m1\<rparr>))))))"

text \<open>\<open>sendToAI\<close>: the \<open>catch\<close> turns whatever was thrown into a response.\<close>

definition sendToAI :: "Env \<Rightarrow> AIRequest \<Rightarrow> World \<Rightarrow> AIResponse \<times> World" where
  "sendToAI env req w =
     (case sendToAI_try env req w of
        (Inr r, w') \<Rightarrow> (r, w')
      | (Inl e, w') \<Rightarrow>
          (\<lparr>resp_provider = (case provider req of None \<Rightarrow> claude | Some p \<Rightarrow> p),
            resp_model = model req, resp_content = '''', usage = None, cost = None,
            error = Some (err_message e), streaming = None, responseTime = None\<rparr>, w'))"

section \<open>Example inputs\<close>

definition userMessage :: "string \<Rightarrow> AIMessage" where
  "userMessage c =
     \<lparr>role = user, content = c, timestamp = None, msg_provider = None, msg_model = None,
      tokens = None, msg_cost = None\<rparr>"

text \<open>A request with one user message and nothing else set.\<close>

definition simpleRequest :: "AIProvider option \<Rightarrow> string \<Rightarrow> AIRequest" where
  "simpleRequest p c =
     \<lparr>provider = p, model = '''', messages = [userMessage c], temperature = None,
      maxTokens = None, topP = None, stream = None, systemPrompt = None, req_context = None\<rparr>"

text \<open>The default settings with exactly the listed providers enabled.\<close>

definition enableOnly :: "AIProvider list \<Rightarrow> ExtensionSettings" where
  "enableOnly ps =
     getDefaultSettings\<lparr>providers :=
       (\<lambda>p. (providers getDefaultSettings p)\<lparr>enabled := (p \<in> set ps)\<rparr>)\<rparr>"

text \<open>The default settings with auto-routing off and the given default provider.\<close>

definition manualSettings :: "AIProvider \<Rightarrow> ExtensionSettings" where
  "manualSettings p = getDefaultSettings\<lparr>general := \<lparr>defaultProvider = p, autoRouting = False\<rparr>\<rparr>"

definition exampleResponse :: "AIProvider \<Rightarrow> string \<Rightarrow> AIResponse" where
  "exampleResponse p c =
     \<lparr>resp_provider = p, resp_model = ''m'', resp_content = c, usage = None, cost = None,
      error = None, streaming = None, responseTime = None\<rparr>"

definition emptyStorage :: Storage where
  "emptyStorage = \<lparr>settings = None, apiKeys = Map.empty, usage_data = None, cache = None\<rparr>"

text \<open>A storage whose cache is empty and holds at most two entries.\<close>

definition smallCacheStorage :: Storage where
  "smallCacheStorage = emptyStorage\<lparr>cache := Some \<lparr>entries = [], maxSize = 2, ttl = 3600000\<rparr>\<rparr>"

text \<open>\<open>n\<close> insertions under the keys \<open>''\<close>, \<open>k\<close>, \<open>kk\<close>, ... at the clock readings 0, 1, 2, ...\<close>

definition manyInsertions :: "nat \<Rightarrow> (string \<times> AIResponse \<times> AIProvider \<times> int) list" where
  "manyInsertions n =
     map (\<lambda>i. (replicate i (CHR ''k''), exampleResponse claude '''', claude, int i)) [0..<n]"

text \<open>A storage with keys for Claude and Grok, and the given settings.\<close>

definition keyedStorage :: "ExtensionSettings \<Rightarrow> Storage" where
  "keyedStorage st =
     \<lparr>settings = Some st, apiKeys = [claude \<mapsto> ''key-c'', grok \<mapsto> ''key-g''],
      usage_data = None, cache = None\<rparr>"

text \<open>An environment in which the adapter's call returns the given response, nothing else
  touches the in-flight map, and the cache key is the text of the last message after the
  provider's name (\<open>undefined\<close> when the request names none).\<close>

definition exampleEncode :: "CacheKeyObject \<Rightarrow> JsError + string" where
  "exampleEncode k =
     Inr ((case key_provider k of None \<Rightarrow> ''undefined'' | Some p \<Rightarrow> AIProvider_name p)
          @ '':'' @ key_model k @ '':'' @ concat (map content (key_messages k)))"

definition exampleEnv :: "int \<Rightarrow> TryOutcome \<Rightarrow> Env" where
  "exampleEnv t out =
     \<lparr>encode = exampleEncode, lookupTime = t, storeTime = t + 2, usageTime = t + 3,
      dispatch = \<lparr>requestId = ''req-1'', startTime = t, endTime = t + 1,
                  interleaved = (\<lambda>m. m), outcome = out, chunks = [],
                  streamResult = Inl (Error ''unused'')\<rparr>\<rparr>"

definition exampleWorld :: "Storage \<Rightarrow> World" where
  "exampleWorld s = \<lparr>storage = s, aiRouter = AIRouter_new, apiManager = APIManager_new\<rparr>"

text \<open>A manager with one request in flight, and one without adapters.\<close>

definition busyManager :: APIManager where
  "busyManager = APIManager_new\<lparr>activeRequests := [''req-0'' \<mapsto> \<lparr>aborted = False\<rparr>]\<rparr>"

definition noAdapters :: APIManager where
  "noAdapters = \<lparr>mgr_providers = Map.empty, activeRequests = Map.empty\<rparr>"

definition exampleChunk :: "string \<Rightarrow> StreamChunk" where
  "exampleChunk d = \<lparr>delta = d, finished = False, chunk_provider = grok, chunk_model = ''grok-beta''\<rparr>"

text \<open>A streamed dispatch that is cancelled after its first chunk: \<open>cancelRequest\<close> removes
  the id meanwhile and the second chunk finds the signal aborted.\<close>

definition cancelledStream :: DispatchEnv where
  "cancelledStream =
     \<lparr>requestId = ''req-1'', startTime = 0, endTime = 5,
      interleaved = (\<lambda>m. m(''req-1'' := None)),
      outcome = Thrown (PlainError ''unused''),
      chunks = [(exampleChunk ''a'', False), (exampleChunk ''b'', True)],
      streamResult = Inr (exampleResponse grok ''a'')\<rparr>"

definition streamedRequest :: APIRequestWithConfig where
  "streamedRequest =
     \<lparr>request = (simpleRequest (Some grok) ''hi'')\<lparr>stream := Some True\<rparr>, apiKey = ''key-g'',
      cfg_settings = providers getDefaultSettings grok\<rparr>"

section \<open>Properties of the router\<close>

lemma calculateScores_providers:
  "map score_provider (calculateScores r st req)
   = filter (\<lambda>p. enabled (providers st p)) [claude, chatgpt, gemini, grok]"
  by (simp add: calculateScores_def calculateProviderScore_def Let_def comp_def)

lemma route_result:
  "route r st req =
     (case sort_key (\<lambda>s. - score s) (calculateScores r st req) of
        [] \<Rightarrow> Inl (TypeError ''Cannot read properties of undefined (reading 'provider')'')
      | best # _ \<Rightarrow> Inr (score_provider best))"
  by (simp add: route_def Let_def)

lemma route_Inr_enabled:
  assumes "route r st req = Inr p"
  shows "enabled (providers st p)"
proof -
  let ?sorted = "sort_key (\<lambda>s. - score s) (calculateScores r st req)"
  from assms obtain best rest where b: "?sorted = best # rest" "score_provider best = p"
    by (auto simp: route_result split: list.splits)
  then have "best \<in> set ?sorted" by simp
  then have "best \<in> set (calculateScores r st req)" by simp
  then have "p \<in> set (map score_provider (calculateScores r st req))"
    using b(2) by force
  then have "p \<in> set (filter (\<lambda>p. enabled (providers st p)) [claude, chatgpt, gemini, grok])"
    unfolding calculateScores_providers .
  then show ?thesis by (simp only: set_filter mem_Collect_eq)
qed

lemma route_none_enabled:
  assumes "\<forall>q. \<not> enabled (providers st q)"
  shows "route r st req
         = Inl (TypeError ''Cannot read properties of undefined (reading 'provider')'')"
proof -
  have "map score_provider (calculateScores r st req) = []"
    unfolding calculateScores_providers using assms by simp
  then have "calculateScores r st req = []" by simp
  then show ?thesis by (simp add: route_result)
qed

lemma route_some_enabled:
  assumes "enabled (providers st q)"
  shows "\<exists>p. route r st req = Inr p"
proof -
  have "q \<in> set [claude, chatgpt, gemini, grok]" by (cases q) simp_all
  then have "filter (\<lambda>p. enabled (providers st p)) [claude, chatgpt, gemini, grok] \<noteq> []"
    using assms by (metis filter_empty_conv)
  then have "calculateScores r st req \<noteq> []"
    using calculateScores_providers[of r st req] by auto
  then have "sort_key (\<lambda>s. - score s) (calculateScores r st req) \<noteq> []"
    by (metis length_0_conv length_sort)
  then show ?thesis by (auto simp: route_result split: list.splits)
qed

text \<open>
  C1, as the spec states it, fails: \<open>route\<close> does not read \<open>request.provider\<close>. With the
  default settings, a request that names Grok and asks to write a poem is routed to Claude.
\<close>

theorem route_ignores_request_provider:
  "provider (simpleRequest (Some grok) ''Write a poem'') = Some grok
   \<and> route AIRouter_new getDefaultSettings (simpleRequest (Some grok) ''Write a poem'') = Inr claude"
  by code_simp

text \<open>
  C1, amended: the manual override is made by \<open>sendToAI\<close>. For every request whose provider
  field is set, the provider that \<open>sendToAI\<close> dispatches to is exactly that provider,
  whatever the message content, the context, the router's state and the settings (so also
  which providers are enabled); \<open>route\<close> is not consulted.
\<close>

theorem sendToAI_provider_override:
  "provider req = Some p \<Longrightarrow> sendToAI_provider r st req = Inr p"
  by (simp add: sendToAI_provider_def)

theorem sendToAI_provider_override_witness:
  "provider (simpleRequest (Some grok) ''Write a poem'') = Some grok
   \<and> sendToAI_provider AIRouter_new (enableOnly [claude])
        (simpleRequest (Some grok) ''Write a poem'') = Inr grok"
proof -
  have h: "provider (simpleRequest (Some grok) ''Write a poem'') = Some grok"
    by (simp add: simpleRequest_def)
  show ?thesis using h sendToAI_provider_override [OF h] by simp
qed

text \<open>
  C2: \<open>route\<close> returns only a provider that is enabled in the settings; when no provider
  is enabled it fails, with the \<open>TypeError\<close> of reading \<open>sorted[0].provider\<close> on an empty
  array, and it fails in no other case.
\<close>

theorem route_never_disabled:
  "(route r st req = Inr p \<longrightarrow> enabled (providers st p))
   \<and> ((\<forall>q. \<not> enabled (providers st q)) \<longrightarrow>
        route r st req
        = Inl (TypeError ''Cannot read properties of undefined (reading 'provider')''))
   \<and> ((\<exists>q. enabled (providers st q)) \<longrightarrow> (\<exists>p'. route r st req = Inr p'))"
  using route_Inr_enabled route_none_enabled route_some_enabled by blast

theorem route_never_disabled_witness:
  "route AIRouter_new (enableOnly [gemini]) (simpleRequest None ''Write a poem'') = Inr gemini
   \<and> enabled (providers (enableOnly [gemini]) gemini)
   \<and> (\<forall>q. \<not> enabled (providers (enableOnly []) q))
   \<and> route AIRouter_new (enableOnly []) (simpleRequest None ''Write a poem'')
     = Inl (TypeError ''Cannot read properties of undefined (reading 'provider')'')"
proof -
  have a: "route AIRouter_new (enableOnly [gemini]) (simpleRequest None ''Write a poem'') = Inr gemini"
    by code_simp
  have b: "\<forall>q. \<not> enabled (providers (enableOnly []) q)"
    by (simp add: enableOnly_def)
  from route_never_disabled [of AIRouter_new "enableOnly [gemini]"
      "simpleRequest None ''Write a poem''" gemini] a
  have c: "enabled (providers (enableOnly [gemini]) gemini)" by blast
  from route_never_disabled [of AIRouter_new "enableOnly []"
      "simpleRequest None ''Write a poem''" gemini] b
  have d: "route AIRouter_new (enableOnly []) (simpleRequest None ''Write a poem'')
     = Inl (TypeError ''Cannot read properties of undefined (reading 'provider')'')" by blast
  show ?thesis using a b c d by blast
qed

text \<open>
  C3: the composite score of every scored provider is 0.4 times the capability match
  plus 0.3 times the user preference plus 0.2 times the cost efficiency plus 0.1 times the
  response speed of its own factor breakdown, and the breakdown holds the four factor
  functions' values. The weights are constants of \<open>calculateProviderScore\<close>: no argument
  changes them. (Numbers are exact here, so the equation is exact.)
\<close>

theorem composite_score_weights:
  "score (calculateProviderScore r p req t)
   = 0.4 * capabilityMatch (factors (calculateProviderScore r p req t))
     + 0.3 * userPreference (factors (calculateProviderScore r p req t))
     + 0.2 * costEfficiency (factors (calculateProviderScore r p req t))
     + 0.1 * responseSpeed (factors (calculateProviderScore r p req t))
   \<and> factors (calculateProviderScore r p req t)
     = \<lparr>capabilityMatch = calculateCapabilityMatch p t req,
        userPreference = calculateUserPreference r p t,
        costEfficiency = calculateCostEfficiency p req,
        responseSpeed = calculateResponseSpeed r p\<rparr>
   \<and> map score (calculateScores r st req)
     = map (\<lambda>s. 0.4 * capabilityMatch (factors s) + 0.3 * userPreference (factors s)
                + 0.2 * costEfficiency (factors s) + 0.1 * responseSpeed (factors s))
           (calculateScores r st req)"
  by (simp add: calculateProviderScore_def calculateScores_def Let_def comp_def mult.commute)


section \<open>Properties of the response cache\<close>


lemma Map_get_Map_set: "Map_get (Map_set m k v) k = Some v"
  by (induction m) auto

lemma Map_set_present: "k \<in> set (map fst m) \<Longrightarrow> map fst (Map_set m k v) = map fst m"
  by (induction m) force+

lemma Map_set_absent: "k \<notin> set (map fst m) \<Longrightarrow> Map_set m k v = m @ [(k, v)]"
  by (induction m) auto

lemma set_Map_set: "set (Map_set m k v) \<subseteq> insert (k, v) (set m)"
  by (induction m) (auto split: if_splits)

lemma length_Map_set_present: "k \<in> set (map fst m) \<Longrightarrow> length (Map_set m k v) = length m"
  by (induction m) force+

lemma Map_get_Map_delete: "k \<noteq> k' \<Longrightarrow> Map_get (Map_delete m k') k = Map_get m k"
proof (induction m)
  case Nil
  then show ?case by (simp add: Map_delete_def)
next
  case (Cons a m)
  then show ?case by (cases a) (auto simp: Map_delete_def)
qed

lemma set_Map_delete: "set (Map_delete m k) \<subseteq> set m"
  by (auto simp: Map_delete_def)

lemma length_Map_delete: "length (Map_delete m k) \<le> length m"
  by (simp add: Map_delete_def)

lemma length_Map_delete_less:
  assumes "k \<in> set (map fst m)"
  shows "length (Map_delete m k) < length m"
proof -
  from assms obtain kv where "kv \<in> set m" "fst kv = k" by auto
  then show ?thesis unfolding Map_delete_def by (intro length_filter_less[of kv]) auto
qed

lemma distinct_Map_delete: "distinct (map fst m) \<Longrightarrow> distinct (map fst (Map_delete m k))"
  by (simp add: Map_delete_def distinct_map_filter)

lemma distinct_Map_set: "distinct (map fst m) \<Longrightarrow> distinct (map fst (Map_set m k v))"
  by (cases "k \<in> set (map fst m)") (simp_all add: Map_set_present Map_set_absent)

lemma length_Map_set: "length (Map_set m k v) \<le> Suc (length m)"
  by (induction m) auto

lemma insort_key_snoc:
  "f y \<le> f z \<Longrightarrow> insort_key f y (zs @ [z]) = insort_key f y zs @ [z]"
  by (induction zs) auto

lemma sort_key_snoc:
  "\<forall>y\<in>set ys. f y \<le> f z \<Longrightarrow> sort_key f (ys @ [z]) = sort_key f ys @ [z]"
  by (induction ys) (simp_all add: insort_key_snoc)

lemma Map_delete_head: "k \<notin> set (map fst m) \<Longrightarrow> Map_delete ((k, v) # m) k = m"
  by (induction m) (auto simp: Map_delete_def)

text \<open>One eviction from a full map that has just received a new last entry keeps that entry.\<close>

lemma enforce_one:
  assumes "maxSize c = int (length m)" "m \<noteq> []" "k \<notin> set (map fst m)"
    and "\<forall>kv\<in>set m. cr_timestamp (snd kv) \<le> cr_timestamp e"
    and "entries c = m @ [(k, e)]"
  shows "\<exists>k0. k0 \<noteq> k \<and> k0 \<in> set (map fst m) \<and> entries (enforceMaxSize c) = Map_delete (m @ [(k, e)]) k0
      \<and> maxSize (enforceMaxSize c) = maxSize c \<and> ttl (enforceMaxSize c) = ttl c"
proof -
  let ?f = "\<lambda>kv. cr_timestamp (snd kv)"
  have srt: "sort_key ?f (m @ [(k, e)]) = sort_key ?f m @ [(k, e)]"
    using assms(4) by (intro sort_key_snoc) simp
  have ne: "sort_key ?f m \<noteq> []" using assms(2)
    by (metis length_sort length_0_conv)
  then obtain kv rest where kv: "sort_key ?f m = kv # rest" by (cases "sort_key ?f m") auto
  have "kv \<in> set m" using kv by (metis list.set_intros(1) set_sort)
  then have k0: "fst kv \<in> set (map fst m)" "fst kv \<noteq> k" using assms(3) by auto
  have "entries (enforceMaxSize c) = Map_delete (m @ [(k, e)]) (fst kv)"
    using assms(1,5) srt kv by (simp add: enforceMaxSize_def)
  moreover have "maxSize (enforceMaxSize c) = maxSize c" "ttl (enforceMaxSize c) = ttl c"
    by (simp_all add: enforceMaxSize_def Let_def)
  ultimately show ?thesis using k0 by blast
qed

lemma enforce_none:
  "int (length (entries c)) \<le> maxSize c \<Longrightarrow> enforceMaxSize c = c"
  by (simp add: enforceMaxSize_def)

text \<open>What the cache holds after an insertion into a state that satisfies the invariant.\<close>

lemma set_inv_step:
  fixes k r p
  assumes inv: "cache_inv t s" and le: "t \<le> t1"
  defines "e \<equiv> \<lparr>cr_key = k, response = r, cr_timestamp = t1, hits = 0, cr_provider = p\<rparr>"
  shows "\<exists>c. cache (setCachedResponse k r p t1 s) = Some c \<and> Map_get (entries c) k = Some e
           \<and> maxSize c = 100 \<and> ttl c = 3600000 \<and> int (length (entries c)) \<le> 100
           \<and> distinct (map fst (entries c))
           \<and> (\<forall>kv \<in> set (entries c). cr_timestamp (snd kv) \<le> t1)"
proof -
  define c0 where "c0 = (case cache s of None \<Rightarrow> \<lparr>entries = [], maxSize = 100, ttl = 3600000\<rparr> | Some c \<Rightarrow> c)"
  have c0: "maxSize c0 = 100" "ttl c0 = 3600000" "int (length (entries c0)) \<le> 100"
    "distinct (map fst (entries c0))" "\<forall>kv \<in> set (entries c0). cr_timestamp (snd kv) \<le> t"
    using inv by (auto simp: cache_inv_def c0_def split: option.splits)
  define c1 where "c1 = c0\<lparr>entries := Map_set (entries c0) k e\<rparr>"
  have res: "cache (setCachedResponse k r p t1 s) = Some (enforceMaxSize c1)"
    by (simp add: setCachedResponse_def c1_def c0_def e_def Let_def)
  have ts1: "\<forall>kv \<in> set (entries c1). cr_timestamp (snd kv) \<le> t1"
  proof
    fix kv assume "kv \<in> set (entries c1)"
    then have "kv = (k, e) \<or> kv \<in> set (entries c0)"
      using set_Map_set[of "entries c0" k e] by (auto simp: c1_def)
    then show "cr_timestamp (snd kv) \<le> t1" using c0(5) le by (auto simp: e_def)
  qed
  have d1: "distinct (map fst (entries c1))" using c0(4) by (simp add: c1_def distinct_Map_set)
  have g1: "Map_get (entries c1) k = Some e" by (simp add: c1_def Map_get_Map_set)
  show ?thesis
  proof (cases "int (length (entries c1)) \<le> maxSize c1")
    case True
    then have "enforceMaxSize c1 = c1" by (rule enforce_none)
    moreover have "maxSize c1 = 100" "ttl c1 = 3600000" using c0 by (simp_all add: c1_def)
    ultimately show ?thesis using res True ts1 d1 g1 by simp
  next
    case False
    have m1: "maxSize c1 = 100" "ttl c1 = 3600000" using c0 by (simp_all add: c1_def)
    have notin: "k \<notin> set (map fst (entries c0))"
    proof
      assume "k \<in> set (map fst (entries c0))"
      then have "length (entries c1) = length (entries c0)"
        by (simp add: c1_def length_Map_set_present)
      then show False using False c0 m1 by simp
    qed
    then have app: "entries c1 = entries c0 @ [(k, e)]" by (simp add: c1_def Map_set_absent)
    then have len: "int (length (entries c0)) = 100" using False c0 m1 by simp
    then have ne: "entries c0 \<noteq> []" by auto
    have "\<forall>kv\<in>set (entries c0). cr_timestamp (snd kv) \<le> cr_timestamp e"
      using c0(5) le by (auto simp: e_def)
    from enforce_one[OF _ ne notin this app] len m1
    obtain k0 where k0: "k0 \<noteq> k" "k0 \<in> set (map fst (entries c0))"
      "entries (enforceMaxSize c1) = Map_delete (entries c0 @ [(k, e)]) k0"
      "maxSize (enforceMaxSize c1) = 100" "ttl (enforceMaxSize c1) = 3600000" by auto
    have get: "Map_get (entries (enforceMaxSize c1)) k = Some e"
      using k0(1,3) g1 app by (simp add: Map_get_Map_delete)
    have sub: "set (entries (enforceMaxSize c1)) \<subseteq> set (entries c1)"
      using set_Map_delete[of "entries c1" k0] by (simp add: k0(3) app)
    have dist: "distinct (map fst (entries (enforceMaxSize c1)))"
      using distinct_Map_delete[OF d1, of k0] by (simp add: k0(3) app)
    have "length (Map_delete (entries c0 @ [(k, e)]) k0) = length (Map_delete (entries c0) k0) + 1"
      using k0(1) by (simp add: Map_delete_def)
    moreover have "length (Map_delete (entries c0) k0) < length (entries c0)"
      using k0(2) by (rule length_Map_delete_less)
    ultimately have "int (length (entries (enforceMaxSize c1))) \<le> 100" using k0(3) len by simp
    then show ?thesis using res get k0(4,5) dist sub ts1 by auto
  qed
qed

lemma cache_inv_set: "cache_inv t s \<Longrightarrow> t \<le> t1 \<Longrightarrow> cache_inv t1 (setCachedResponse k r p t1 s)"
  using set_inv_step[of t s t1 k r p] by (auto simp: cache_inv_def)

lemma cache_inv_mono: "cache_inv t s \<Longrightarrow> t \<le> t' \<Longrightarrow> cache_inv t' s"
  by (fastforce simp: cache_inv_def split: option.splits)

lemma cache_inv_remove:
  assumes "cache_inv t s"
  shows "cache_inv t (removeCachedResponse k s)"
proof (cases "cache s")
  case None
  then show ?thesis using assms by (simp add: removeCachedResponse_def)
next
  case (Some c)
  have "length (Map_delete (entries c) k) \<le> length (entries c)" by (rule length_Map_delete)
  moreover have "set (Map_delete (entries c) k) \<subseteq> set (entries c)" by (rule set_Map_delete)
  ultimately show ?thesis using assms Some
    by (auto simp: cache_inv_def removeCachedResponse_def distinct_Map_delete)
qed

lemma cache_inv_clear: "cache_inv t (clearCache s)"
  by (simp add: cache_inv_def clearCache_def)

lemma Map_get_in_set: "Map_get m k = Some v \<Longrightarrow> (k, v) \<in> set m"
  by (induction m) (auto split: if_splits)

lemma cache_inv_get: 
  assumes "cache_inv t s" shows "cache_inv t (snd (getCachedResponse k t' s))"
proof (cases "cache s")
  case None
  then show ?thesis using assms by (simp add: getCachedResponse_def)
next
  case (Some c)
  show ?thesis
  proof (cases "Map_get (entries c) k")
    case None
    then show ?thesis using assms Some by (simp add: getCachedResponse_def)
  next
    case (Some entry)
    note e = this
    show ?thesis
    proof (cases "t' - cr_timestamp entry > ttl c")
      case True
      then show ?thesis using assms \<open>cache s = Some c\<close> e
        by (simp add: getCachedResponse_def cache_inv_remove)
    next
      case False
      have in_set: "(k, entry) \<in> set (entries c)" using e by (rule Map_get_in_set)
      then have kin: "k \<in> set (map fst (entries c))" by force
      let ?e' = "entry\<lparr>hits := hits entry + 1\<rparr>"
      have "\<forall>kv \<in> set (Map_set (entries c) k ?e'). cr_timestamp (snd kv) \<le> t"
      proof
        fix kv assume "kv \<in> set (Map_set (entries c) k ?e')"
        then have "kv = (k, ?e') \<or> kv \<in> set (entries c)" using set_Map_set[of "entries c" k ?e'] by auto
        then show "cr_timestamp (snd kv) \<le> t"
          using assms \<open>cache s = Some c\<close> in_set by (auto simp: cache_inv_def)
      qed
      then show ?thesis using assms \<open>cache s = Some c\<close> e False kin
        by (simp add: getCachedResponse_def cache_inv_def Let_def distinct_Map_set length_Map_set_present)
    qed
  qed
qed

lemma reachable_inv: "cache_reachable t s \<Longrightarrow> cache_inv t s"
proof (induction rule: cache_reachable.induct)
  case (initial s t)
  then show ?case by (simp add: cache_inv_def)
next
  case (after_set t s t' k r p)
  then show ?case by (simp add: cache_inv_set)
next
  case (after_get t s t' k)
  then show ?case using cache_inv_get cache_inv_mono by blast
next
  case (after_remove t s t' k)
  then show ?case using cache_inv_remove cache_inv_mono by blast
next
  case (after_clear t s t')
  then show ?case by (simp add: cache_inv_clear)
qed

text \<open>
  C4: in every cache state the service can be in, \<open>setCachedResponse(k, r, p)\<close> stores an
  entry for \<open>k\<close> with response \<open>r\<close> and hit counter 0, and a \<open>getCachedResponse(k)\<close> that
  follows before the time to live (3600000 ms) has elapsed returns that entry with response
  \<open>r\<close> and hit counter 1.
\<close>

theorem cache_round_trip:
  assumes "cache_reachable t s" and "t \<le> t1" and "t2 - t1 \<le> 3600000"
  shows "Map_get (cache_entries (setCachedResponse k r p t1 s)) k
         = Some \<lparr>cr_key = k, response = r, cr_timestamp = t1, hits = 0, cr_provider = p\<rparr>
       \<and> fst (getCachedResponse k t2 (setCachedResponse k r p t1 s))
         = Some \<lparr>cr_key = k, response = r, cr_timestamp = t1, hits = 1, cr_provider = p\<rparr>"
proof -
  have "cache_inv t s" using assms(1) by (rule reachable_inv)
  from set_inv_step[OF this assms(2), of k r p]
  obtain c where c: "cache (setCachedResponse k r p t1 s) = Some c"
    "Map_get (entries c) k = Some \<lparr>cr_key = k, response = r, cr_timestamp = t1, hits = 0, cr_provider = p\<rparr>"
    "ttl c = 3600000" by auto
  show ?thesis using c assms(3) by (simp add: getCachedResponse_def Let_def cache_entries_def)
qed

theorem cache_round_trip_witness:
  "cache_reachable 10 (setCachedResponse ''a'' (exampleResponse claude ''x'') claude 10 emptyStorage)
   \<and> (10::int) \<le> 20 \<and> (30::int) - 20 \<le> 3600000
   \<and> fst (getCachedResponse ''k'' 30
        (setCachedResponse ''k'' (exampleResponse grok ''y'') grok 20
          (setCachedResponse ''a'' (exampleResponse claude ''x'') claude 10 emptyStorage)))
     = Some \<lparr>cr_key = ''k'', response = exampleResponse grok ''y'', cr_timestamp = 20, hits = 1,
             cr_provider = grok\<rparr>"
proof -
  have "cache_reachable 0 emptyStorage"
    by (rule cache_reachable.initial) (simp add: emptyStorage_def)
  then have r: "cache_reachable 10
      (setCachedResponse ''a'' (exampleResponse claude ''x'') claude 10 emptyStorage)"
    by (rule cache_reachable.after_set) simp
  have a: "(10::int) \<le> 20" and b: "(30::int) - 20 \<le> 3600000" by simp_all
  show ?thesis using r a b cache_round_trip [OF r a b] by blast
qed

lemma insertAll_snoc:
  "insertAll (xs @ [(k, r, p, t)]) s = setCachedResponse k r p t (insertAll xs s)"
  by (induction xs s rule: insertAll.induct) simp_all

lemma fst_entry_of: "fst (entry_of x) = fst x"
  by (cases x) simp

lemma time_entry_of: "cr_timestamp (snd (entry_of x)) = insertion_time x"
  by (cases x) simp

lemma set_entries_step:
  assumes "cache_entries s = m" "cache_maxSize s = M" "k \<notin> set (map fst m)"
  shows "cache (setCachedResponse k r p t s)
         = Some (enforceMaxSize \<lparr>entries = m @ [entry_of (k, r, p, t)], maxSize = M,
                                 ttl = (case cache s of None \<Rightarrow> 3600000 | Some c \<Rightarrow> ttl c)\<rparr>)"
proof (cases "cache s")
  case None
  then show ?thesis using assms
    by (simp add: setCachedResponse_def cache_entries_def cache_maxSize_def)
next
  case (Some a)
  then show ?thesis using assms
    by (cases a) (simp add: setCachedResponse_def cache_entries_def cache_maxSize_def Map_set_absent)
qed

lemma fill_cache:
  assumes "cache_entries s = []" and "int (length xs) \<le> cache_maxSize s"
    and "distinct (map fst xs)"
  shows "cache_entries (insertAll xs s) = map entry_of xs
         \<and> cache_maxSize (insertAll xs s) = cache_maxSize s"
  using assms(2,3)
proof (induction xs rule: rev_induct)
  case Nil
  then show ?case using assms(1) by simp
next
  case (snoc x xs)
  obtain k r p t where x: "x = (k, r, p, t)" by (cases x) auto
  have ih: "cache_entries (insertAll xs s) = map entry_of xs"
    "cache_maxSize (insertAll xs s) = cache_maxSize s"
    using snoc by simp_all
  have notin: "k \<notin> set (map fst (map entry_of xs))"
    using snoc.prems(2) x by (simp add: fst_entry_of cong: map_cong)
  have small: "int (length (map entry_of xs @ [entry_of (k, r, p, t)])) \<le> cache_maxSize s"
    using snoc.prems(1) by simp
  show ?case
    using set_entries_step[OF ih(1) ih(2) notin, of r p t] small
    by (simp add: x insertAll_snoc cache_entries_def cache_maxSize_def enforce_none)
qed

text \<open>
  C5: into a cache that is empty, \<open>maxSize + 1\<close> insertions under distinct keys, the clock
  not running backwards, leave exactly \<open>maxSize\<close> entries: those of all insertions but the
  first, in insertion order. The evicted entry is the earliest inserted one.
\<close>

theorem eviction_oldest_first:
  assumes "cache_entries s = []" and "0 \<le> cache_maxSize s"
    and "int (length xs) = cache_maxSize s + 1"
    and "distinct (map fst xs)"
    and "sorted (map insertion_time xs)"
  shows "cache_entries (insertAll xs s) = map entry_of (tl xs)
         \<and> int (length (cache_entries (insertAll xs s))) = cache_maxSize s
         \<and> fst (hd xs) \<notin> fst ` set (cache_entries (insertAll xs s))"
proof -
  from assms(2,3) have "xs \<noteq> []" by auto
  then obtain ys x where xs: "xs = ys @ [x]" by (metis rev_exhaust)
  obtain k r p t where x: "x = (k, r, p, t)" by (cases x) auto
  have len: "int (length ys) = cache_maxSize s" using assms(3) xs by simp
  have dys: "distinct (map fst ys)" using assms(4) xs by simp
  from fill_cache[OF assms(1) _ dys] len
  have filled: "cache_entries (insertAll ys s) = map entry_of ys"
    "cache_maxSize (insertAll ys s) = cache_maxSize s" by simp_all
  have notin: "k \<notin> set (map fst (map entry_of ys))"
    using assms(4) xs x by (simp add: fst_entry_of cong: map_cong)
  let ?c = "\<lparr>entries = map entry_of xs, maxSize = cache_maxSize s,
              ttl = (case cache (insertAll ys s) of None \<Rightarrow> 3600000 | Some c \<Rightarrow> ttl c)\<rparr>"
  have step: "cache (insertAll xs s) = Some (enforceMaxSize ?c)"
    using set_entries_step[OF filled(1) filled(2) notin, of r p t]
    by (simp add: xs x insertAll_snoc)
  have srt: "sort_key (\<lambda>kv. cr_timestamp (snd kv)) (map entry_of xs) = map entry_of xs"
    using assms(5) by (intro sort_key_id_if_sorted) (simp add: comp_def time_entry_of)
  obtain z zs where z: "xs = z # zs" using \<open>xs \<noteq> []\<close> by (cases xs) auto
  have "fst z \<notin> set (map fst (map entry_of zs))"
    using assms(4) z by (simp add: fst_entry_of cong: map_cong)
  then have del: "Map_delete (entry_of z # map entry_of zs) (fst (entry_of z)) = map entry_of zs"
    using Map_delete_head[of "fst z" "map entry_of zs" "snd (entry_of z)"]
    by (simp add: fst_entry_of[symmetric])
  have "length zs = nat (cache_maxSize s)" using assms(2,3) z by simp
  then have ent: "entries (enforceMaxSize ?c) = map entry_of zs"
    using assms(2) srt del by (simp add: enforceMaxSize_def z)
  have "fst z \<notin> fst ` set (map entry_of zs)"
    using \<open>fst z \<notin> set (map fst (map entry_of zs))\<close> by (simp add: image_image)
  then show ?thesis
    using step ent assms(2,3) z by (simp add: cache_entries_def)
qed

lemma manyInsertions_distinct: "distinct (map fst (manyInsertions n))"
proof -
  have "inj_on (\<lambda>i. replicate i (CHR ''k'')) (set [0..<n])"
    by (rule inj_onI) (metis length_replicate)
  then show ?thesis by (simp add: manyInsertions_def comp_def distinct_map)
qed

lemma manyInsertions_sorted: "sorted (map insertion_time (manyInsertions n))"
proof -
  have "map insertion_time (manyInsertions n) = map int [0..<n]"
    by (simp add: manyInsertions_def comp_def)
  moreover have "sorted (map int [0..<n])"
    by (induction n) (auto simp: sorted_append)
  ultimately show ?thesis by simp
qed

text \<open>The witness: three insertions into a cache for two entries, evaluated, and 101
  insertions into a storage that has no cache yet (so that its size is 100).\<close>

theorem eviction_oldest_first_witness:
  "cache_entries smallCacheStorage = [] \<and> 0 \<le> cache_maxSize smallCacheStorage
   \<and> int (length [(''a'', exampleResponse claude ''x'', claude, 1::int),
                   (''b'', exampleResponse claude ''y'', claude, 2),
                   (''c'', exampleResponse claude ''z'', claude, 2)])
     = cache_maxSize smallCacheStorage + 1
   \<and> map fst (cache_entries (insertAll
        [(''a'', exampleResponse claude ''x'', claude, 1),
         (''b'', exampleResponse claude ''y'', claude, 2),
         (''c'', exampleResponse claude ''z'', claude, 2)] smallCacheStorage))
     = [''b'', ''c'']
   \<and> cache_entries emptyStorage = [] \<and> cache_maxSize emptyStorage = 100
   \<and> int (length (manyInsertions 101)) = cache_maxSize emptyStorage + 1
   \<and> cache_entries (insertAll (manyInsertions 101) emptyStorage)
     = map entry_of (tl (manyInsertions 101))
   \<and> int (length (cache_entries (insertAll (manyInsertions 101) emptyStorage))) = 100"
proof -
  let ?xs = "[(''a'', exampleResponse claude ''x'', claude, 1::int),
              (''b'', exampleResponse claude ''y'', claude, 2),
              (''c'', exampleResponse claude ''z'', claude, 2)]"
  have a: "cache_entries smallCacheStorage = []"
    by (simp add: smallCacheStorage_def cache_entries_def)
  have b: "0 \<le> cache_maxSize smallCacheStorage"
    by (simp add: smallCacheStorage_def cache_maxSize_def)
  have c: "int (length ?xs) = cache_maxSize smallCacheStorage + 1"
    by (simp add: smallCacheStorage_def cache_maxSize_def)
  have d: "distinct (map fst ?xs)" by simp
  have e: "sorted (map insertion_time ?xs)" by simp
  from eviction_oldest_first [OF a b c d e]
  have "cache_entries (insertAll ?xs smallCacheStorage) = map entry_of (tl ?xs)" by blast
  then have small: "map fst (cache_entries (insertAll ?xs smallCacheStorage)) = [''b'', ''c'']"
    by simp
  have a': "cache_entries emptyStorage = []"
    by (simp add: emptyStorage_def cache_entries_def)
  have m: "cache_maxSize emptyStorage = 100"
    by (simp add: emptyStorage_def cache_maxSize_def)
  have b': "0 \<le> cache_maxSize emptyStorage" using m by simp
  have c': "int (length (manyInsertions 101)) = cache_maxSize emptyStorage + 1"
    using m by (simp add: manyInsertions_def)
  note ev = eviction_oldest_first [OF a' b' c' manyInsertions_distinct manyInsertions_sorted]
  have big1: "cache_entries (insertAll (manyInsertions 101) emptyStorage)
               = map entry_of (tl (manyInsertions 101))"
    using ev by blast
  have big2: "int (length (cache_entries (insertAll (manyInsertions 101) emptyStorage))) = 100"
    using conjunct1 [OF conjunct2 [OF ev]] m by simp
  note big = big1 big2
  show ?thesis using a b c small a' m c' big by blast
qed

text \<open>
  Eviction is by insertion time, not by use: with room for two entries, \<open>a\<close> and \<open>b\<close> are
  inserted, \<open>a\<close> is read (a hit), and the insertion of \<open>c\<close> still evicts \<open>a\<close>.
\<close>

lemma eviction_not_least_recently_used:
  "map fst (cache_entries
      (setCachedResponse ''c'' (exampleResponse claude ''z'') claude 4
        (snd (getCachedResponse ''a'' 3
          (insertAll [(''a'', exampleResponse claude ''x'', claude, 1),
                      (''b'', exampleResponse claude ''y'', claude, 2)] smallCacheStorage)))))
   = [''b'', ''c'']"
  by code_simp


section \<open>Properties of the adapters and of the dispatch manager\<close>

lemma or_string_nonempty: "d \<noteq> [] \<Longrightarrow> or_string a d \<noteq> []"
  by (simp add: or_string_def split: option.splits)

lemma httpStatusMessage_nonempty: "httpStatusMessage status d \<noteq> []"
  by (simp add: httpStatusMessage_def or_string_nonempty)

lemma handleError_content: "resp_content (handleError a e req) = ''''"
  by (cases a) (simp_all add: ClaudeAPI_handleError_def ChatGPTAPI_handleError_def
      GeminiAPI_handleError_def GrokAPI_handleError_def errorResponse_def)

lemma handleError_status_message:
  "\<exists>m. error (handleError a (ResponseError status d) req) = Some m \<and> m \<noteq> []"
  by (cases a) (simp_all add: ClaudeAPI_handleError_def ChatGPTAPI_handleError_def
      GeminiAPI_handleError_def GrokAPI_handleError_def errorResponse_def
      httpStatusMessage_nonempty or_string_nonempty)

lemma handleError_401:
  "error (handleError a (ResponseError 401 d) req)
   = Some (if a = GeminiAPI then ''Invalid or missing API key'' else ''Invalid API key'')"
  by (cases a) (simp_all add: ClaudeAPI_handleError_def ChatGPTAPI_handleError_def
      GeminiAPI_handleError_def GrokAPI_handleError_def errorResponse_def)

lemma handleError_429:
  "error (handleError a (ResponseError 429 d) req)
   = Some (case a of
             ClaudeAPI \<Rightarrow> ''Rate limit exceeded''
           | ChatGPTAPI \<Rightarrow> ''Rate limit exceeded. Please try again later.''
           | GeminiAPI \<Rightarrow> ''Rate limit exceeded. Please try again later.''
           | GrokAPI \<Rightarrow> ''Rate limit exceeded. Grok has fast responses but limited rate.'')"
  by (cases a) (simp_all add: ClaudeAPI_handleError_def ChatGPTAPI_handleError_def
      GeminiAPI_handleError_def GrokAPI_handleError_def errorResponse_def)

lemma handleError_unavailable:
  "status = 500 \<or> status = 502 \<or> status = 503 \<Longrightarrow>
   error (handleError a (ResponseError status d) req)
   = Some (case a of
             ClaudeAPI \<Rightarrow> ''Claude API is temporarily unavailable''
           | ChatGPTAPI \<Rightarrow> ''OpenAI API is temporarily unavailable''
           | GeminiAPI \<Rightarrow> ''Gemini API is temporarily unavailable''
           | GrokAPI \<Rightarrow> ''Grok API is temporarily unavailable'')"
  by (cases a) (auto simp add: ClaudeAPI_handleError_def ChatGPTAPI_handleError_def
      GeminiAPI_handleError_def GrokAPI_handleError_def errorResponse_def)

text \<open>
  C7: when the call of an adapter fails with an HTTP status, \<open>sendRequest\<close> returns (it is
  a function to responses: the \<open>catch\<close> covers the whole body) a response whose content is
  the empty string and whose error is a non-empty message; the message is the credentials
  message for 401, a rate-limit message for 429 and the adapter's unavailability message
  for 500, 502 and 503.
\<close>

theorem adapter_http_failure_response:
  "resp_content (sendRequest a (Thrown (ResponseError status d)) req) = ''''
   \<and> (\<exists>m. error (sendRequest a (Thrown (ResponseError status d)) req) = Some m \<and> m \<noteq> '''')
   \<and> error (sendRequest a (Thrown (ResponseError 401 d)) req)
     = Some (if a = GeminiAPI then ''Invalid or missing API key'' else ''Invalid API key'')
   \<and> error (sendRequest a (Thrown (ResponseError 429 d)) req)
     = Some (case a of
               ClaudeAPI \<Rightarrow> ''Rate limit exceeded''
             | ChatGPTAPI \<Rightarrow> ''Rate limit exceeded. Please try again later.''
             | GeminiAPI \<Rightarrow> ''Rate limit exceeded. Please try again later.''
             | GrokAPI \<Rightarrow> ''Rate limit exceeded. Grok has fast responses but limited rate.'')
   \<and> (status = 500 \<or> status = 502 \<or> status = 503 \<longrightarrow>
        error (sendRequest a (Thrown (ResponseError status d)) req)
        = Some (case a of
                  ClaudeAPI \<Rightarrow> ''Claude API is temporarily unavailable''
                | ChatGPTAPI \<Rightarrow> ''OpenAI API is temporarily unavailable''
                | GeminiAPI \<Rightarrow> ''Gemini API is temporarily unavailable''
                | GrokAPI \<Rightarrow> ''Grok API is temporarily unavailable''))"
  using handleError_status_message[of a status d req] handleError_unavailable[of status a d req]
  by (simp add: sendRequest_def handleError_content handleError_401 handleError_429)

theorem adapter_http_failure_response_witness:
  "((503::nat) = 500 \<or> (503::nat) = 502 \<or> (503::nat) = 503)
   \<and> sendRequest ClaudeAPI (Thrown (ResponseError 503 None)) (simpleRequest (Some claude) ''hi'')
     = \<lparr>resp_provider = claude, resp_model = ''claude-3-sonnet-20240229'', resp_content = '''',
        usage = None, cost = None, error = Some ''Claude API is temporarily unavailable'',
        streaming = None, responseTime = None\<rparr>
   \<and> error (sendRequest GrokAPI (Thrown (ResponseError 418 (Some '''')))
        (simpleRequest (Some grok) ''hi'')) = Some ''HTTP 418 error''"
proof -
  have h: "(503::nat) = 500 \<or> (503::nat) = 502 \<or> (503::nat) = 503" by simp
  from adapter_http_failure_response [of ClaudeAPI 503 None "simpleRequest (Some claude) ''hi''"] h
  have e: "error (sendRequest ClaudeAPI (Thrown (ResponseError 503 None))
             (simpleRequest (Some claude) ''hi'')) = Some ''Claude API is temporarily unavailable''"
    by simp
  have r: "sendRequest ClaudeAPI (Thrown (ResponseError 503 None)) (simpleRequest (Some claude) ''hi'')
     = \<lparr>resp_provider = claude, resp_model = ''claude-3-sonnet-20240229'', resp_content = '''',
        usage = None, cost = None, error = Some ''Claude API is temporarily unavailable'',
        streaming = None, responseTime = None\<rparr>"
    by (simp add: sendRequest_def ClaudeAPI_handleError_def errorResponse_def simpleRequest_def
        or_string_def)
  have g: "error (sendRequest GrokAPI (Thrown (ResponseError 418 (Some '''')))
        (simpleRequest (Some grok) ''hi'')) = Some ''HTTP 418 error''"
    by code_simp
  show ?thesis using h e r g by blast
qed

lemma sendRequest_registered:
  assumes "provider (request req) = Some p" and "mgr_providers mgr p = Some a"
  shows "activeRequests (snd (APIManager_sendRequest mgr env req))
         = (interleaved env ((activeRequests mgr)(requestId env \<mapsto> \<lparr>aborted = False\<rparr>)))
             (requestId env := None)"
  using assms by (simp add: APIManager_sendRequest_def Let_def)

lemma sendRequest_unknown:
  assumes "provider (request req) = None
           \<or> (\<exists>p. provider (request req) = Some p \<and> mgr_providers mgr p = None)"
  shows "\<exists>e. APIManager_sendRequest mgr env req = (Inl e, mgr)"
  using assms by (auto simp: APIManager_sendRequest_def)

text \<open>
  C8: a call of \<open>APIManager.sendRequest\<close> that registered a request id has, when it settles,
  removed that id from \<open>activeRequests\<close>: whatever the adapter did (a response, an error, a
  cancelled stream) and whatever other tasks did to the map meanwhile. A call that throws
  for an unknown provider registers nothing and leaves the manager as it was.
  \<open>cancelRequest\<close> removes the id it is given and \<open>cancelAllRequests\<close> empties the map.
\<close>

theorem in_flight_deregistered:
  "(provider (request req) = Some p \<and> mgr_providers mgr p = Some a \<longrightarrow>
      requestId env \<notin> dom (activeRequests (snd (APIManager_sendRequest mgr env req))))
   \<and> (provider (request req) = None
        \<or> (\<exists>q. provider (request req) = Some q \<and> mgr_providers mgr q = None) \<longrightarrow>
      (\<exists>e. APIManager_sendRequest mgr env req = (Inl e, mgr)))
   \<and> rid \<notin> dom (activeRequests (cancelRequest mgr rid))
   \<and> dom (activeRequests (cancelAllRequests mgr)) = {}"
proof -
  have "rid \<notin> dom (activeRequests (cancelRequest mgr rid))"
    by (cases "activeRequests mgr rid") (auto simp: cancelRequest_def)
  moreover have "dom (activeRequests (cancelAllRequests mgr)) = {}"
    by (simp add: cancelAllRequests_def)
  ultimately show ?thesis
    using sendRequest_registered[of req p mgr a env] sendRequest_unknown[of req mgr env]
    by auto
qed


theorem in_flight_deregistered_witness:
  "provider (request streamedRequest) = Some grok \<and> mgr_providers busyManager grok = Some GrokAPI
   \<and> fst (APIManager_sendRequest busyManager cancelledStream streamedRequest)
     = Inl (Error ''Request was cancelled'')
   \<and> requestId cancelledStream
     \<notin> dom (activeRequests (snd (APIManager_sendRequest busyManager cancelledStream streamedRequest)))
   \<and> (\<exists>q. provider (request streamedRequest) = Some q \<and> mgr_providers noAdapters q = None)
   \<and> (\<exists>e. APIManager_sendRequest noAdapters cancelledStream streamedRequest = (Inl e, noAdapters))"
proof -
  have a: "provider (request streamedRequest) = Some grok"
    by (simp add: streamedRequest_def simpleRequest_def)
  have b: "mgr_providers busyManager grok = Some GrokAPI"
    by (simp add: busyManager_def APIManager_new_def)
  have c: "fst (APIManager_sendRequest busyManager cancelledStream streamedRequest)
     = Inl (Error ''Request was cancelled'')"
    by (simp add: APIManager_sendRequest_def a b Let_def streamedRequest_def simpleRequest_def
        handleStreamingRequest_def cancelledStream_def Error_def)
  have d: "\<exists>q. provider (request streamedRequest) = Some q \<and> mgr_providers noAdapters q = None"
    using a by (simp add: noAdapters_def)
  from in_flight_deregistered [of streamedRequest grok busyManager GrokAPI cancelledStream] a b
  have e: "requestId cancelledStream
     \<notin> dom (activeRequests (snd (APIManager_sendRequest busyManager cancelledStream streamedRequest)))"
    by blast
  from in_flight_deregistered [of streamedRequest grok noAdapters GrokAPI cancelledStream] d
  have f: "\<exists>e. APIManager_sendRequest noAdapters cancelledStream streamedRequest = (Inl e, noAdapters)"
    by blast
  show ?thesis using a b c d e f by blast
qed


section \<open>Properties of the usage accounting\<close>

lemma find_Some_mem: "find P xs = Some x \<Longrightarrow> x \<in> set xs \<and> P x"
  by (induction xs) (auto split: if_splits)

lemma update_first_length: "length (update_first P f xs) = length xs"
  by (induction xs) auto

lemma update_first_found:
  "find P xs = Some x \<Longrightarrow> f x \<in> set (update_first P f xs)"
  by (induction xs) (auto split: if_splits)

lemma update_first_dates:
  assumes "\<And>d. date (f d) = date d"
  shows "map date (update_first P f xs) = map date xs"
  by (induction xs) (auto simp: assms)

lemma slice_last_all: "length xs \<le> n \<Longrightarrow> slice_last n xs = xs"
  by (simp add: slice_last_def)

lemma slice_last_keeps_last: "0 < n \<Longrightarrow> x \<in> set (slice_last n (xs @ [x]))"
  by (simp add: slice_last_def)

lemma slice_last_subset: "set (slice_last n xs) \<subseteq> set xs"
  unfolding slice_last_def by (rule set_drop_subset)

lemma stored_dailyUsage_trackUsage:
  "stored_dailyUsage (trackUsage p r now s) =
     slice_last 30
       (case find (\<lambda>d. date d = toISODate now) (stored_dailyUsage s) of
          Some _ \<Rightarrow>
            update_first (\<lambda>d. date d = toISODate now)
              (\<lambda>d. d\<lparr>requests := requests d + 1,
                     du_cost := du_cost d + costOrZero r,
                     du_providers := (du_providers d)
                       (p \<mapsto> (case du_providers d p of None \<Rightarrow> 0 | Some n \<Rightarrow> n) + 1)\<rparr>)
              (stored_dailyUsage s)
        | None \<Rightarrow>
            stored_dailyUsage s @
              [\<lparr>date = toISODate now, requests = 1,
                du_tokens = (case usage r of None \<Rightarrow> 0 | Some x \<Rightarrow> totalTokens x),
                du_cost = costOrZero r, du_providers = [p \<mapsto> 1]\<rparr>])"
  by (cases "usage_data s")
     (simp_all add: trackUsage_def stored_dailyUsage_def Let_def emptyUsage_def
        cong: option.case_cong)

lemma trackUsage_at_most_30: "length (stored_dailyUsage (trackUsage p r now s)) \<le> 30"
  unfolding stored_dailyUsage_trackUsage by (simp add: slice_last_def)

text \<open>
  C9, as the spec states it, fails twice. A write on 2020-01-01 and the next write on
  2026-11-03 (UTC) leave both buckets in the collection: the pruning keeps the last thirty
  buckets, whatever their dates. And the second write, made at 04:30 UTC, which is
  23:30 of 2026-11-02 where local time is five hours behind UTC, is bucketed under
  2026-11-03: the date is the UTC date of \<open>toISOString\<close>.
\<close>

theorem usage_buckets_counterexample:
  "map date (stored_dailyUsage
      (trackUsage claude (exampleResponse claude ''x'') 1793680200000
        (trackUsage claude (exampleResponse claude ''x'') 1577880000000 emptyStorage)))
   = [''2020-01-01'', ''2026-11-03'']
   \<and> (1793680200000::int) - 1577880000000 > 30 * 86400000
   \<and> local_calendar_date 300 1793680200000 = ''2026-11-02''"
  by code_simp

text \<open>
  C9, amended: each usage-accounting write buckets under the calendar date (YYYY-MM-DD) of
  the write instant in UTC. When the stored collection holds at most thirty buckets (as it
  does after any write), the collection after the write holds a bucket of that date, whose
  request count is one more than that of the first bucket of that date before the write,
  or 1 when there was none; and every bucket after the write bears that date or a date
  that was there before.
\<close>

theorem usage_bucketed_by_utc_date:
  assumes "length (stored_dailyUsage s) \<le> 30"
  shows "(\<exists>b \<in> set (stored_dailyUsage (trackUsage p r now s)).
            date b = toISODate now
            \<and> requests b = (case find (\<lambda>d. date d = toISODate now) (stored_dailyUsage s) of
                              None \<Rightarrow> 1 | Some b0 \<Rightarrow> requests b0 + 1))
       \<and> set (map date (stored_dailyUsage (trackUsage p r now s)))
         \<subseteq> insert (toISODate now) (set (map date (stored_dailyUsage s)))"
proof (cases "find (\<lambda>d. date d = toISODate now) (stored_dailyUsage s)")
  case None
  let ?new = "\<lparr>date = toISODate now, requests = 1,
                du_tokens = (case usage r of None \<Rightarrow> 0 | Some x \<Rightarrow> totalTokens x),
                du_cost = costOrZero r, du_providers = [p \<mapsto> 1]\<rparr>"
  have eq: "stored_dailyUsage (trackUsage p r now s) = slice_last 30 (stored_dailyUsage s @ [?new])"
    unfolding stored_dailyUsage_trackUsage using None by simp
  have "?new \<in> set (slice_last 30 (stored_dailyUsage s @ [?new]))"
    by (rule slice_last_keeps_last) simp
  then have ex: "\<exists>b \<in> set (stored_dailyUsage (trackUsage p r now s)).
                   date b = toISODate now \<and> requests b = 1"
    unfolding eq by (rule bexI[rotated]) simp
  have "set (slice_last 30 (stored_dailyUsage s @ [?new])) \<subseteq> set (stored_dailyUsage s @ [?new])"
    by (rule slice_last_subset)
  then have "date ` set (slice_last 30 (stored_dailyUsage s @ [?new]))
             \<subseteq> date ` set (stored_dailyUsage s @ [?new])"
    by (rule image_mono)
  then have sub: "set (map date (stored_dailyUsage (trackUsage p r now s)))
         \<subseteq> insert (toISODate now) (set (map date (stored_dailyUsage s)))"
    unfolding eq by simp
  show ?thesis using ex sub None by simp
next
  case (Some b0)
  let ?f = "\<lambda>d. d\<lparr>requests := requests d + 1,
                     du_cost := du_cost d + costOrZero r,
                     du_providers := (du_providers d)
                       (p \<mapsto> (case du_providers d p of None \<Rightarrow> 0 | Some n \<Rightarrow> n) + 1)\<rparr>"
  let ?P = "\<lambda>d. date d = toISODate now"
  have "length (update_first ?P ?f (stored_dailyUsage s)) \<le> 30"
    using assms by (simp add: update_first_length)
  then have eq: "stored_dailyUsage (trackUsage p r now s)
                 = update_first ?P ?f (stored_dailyUsage s)"
    unfolding stored_dailyUsage_trackUsage using Some by (simp add: slice_last_all)
  have mem: "?f b0 \<in> set (update_first ?P ?f (stored_dailyUsage s))"
    using Some by (rule update_first_found)
  have b0: "date b0 = toISODate now" using find_Some_mem[OF Some] by simp
  have dates: "map date (update_first ?P ?f (stored_dailyUsage s)) = map date (stored_dailyUsage s)"
    by (rule update_first_dates) simp
  define fb0 where "fb0 = ?f b0"
  have fb: "date fb0 = toISODate now \<and> requests fb0 = requests b0 + 1"
    using b0 by (simp add: fb0_def)
  have "fb0 \<in> set (stored_dailyUsage (trackUsage p r now s))"
    unfolding eq fb0_def by (rule mem)
  with fb have "\<exists>b \<in> set (stored_dailyUsage (trackUsage p r now s)).
               date b = toISODate now \<and> requests b = requests b0 + 1"
    by blast
  moreover have "set (map date (stored_dailyUsage (trackUsage p r now s)))
         \<subseteq> insert (toISODate now) (set (map date (stored_dailyUsage s)))"
    unfolding eq dates by auto
  ultimately show ?thesis using Some by simp
qed

theorem usage_bucketed_by_utc_date_witness:
  "length (stored_dailyUsage
      (trackUsage claude (exampleResponse claude ''x'') 1793620800000 emptyStorage)) \<le> 30
   \<and> toISODate 1793680200000 = ''2026-11-03''
   \<and> (\<exists>b \<in> set (stored_dailyUsage
          (trackUsage grok (exampleResponse grok ''y'') 1793680200000
            (trackUsage claude (exampleResponse claude ''x'') 1793620800000 emptyStorage))).
        date b = ''2026-11-03'' \<and> requests b = 1)"
proof -
  let ?s = "trackUsage claude (exampleResponse claude ''x'') 1793620800000 emptyStorage"
  have h: "length (stored_dailyUsage ?s) \<le> 30" by (rule trackUsage_at_most_30)
  have d: "toISODate 1793680200000 = ''2026-11-03''" by code_simp
  have f: "find (\<lambda>d. date d = ''2026-11-03'') (stored_dailyUsage ?s) = None" by code_simp
  from usage_bucketed_by_utc_date [OF h, of grok "exampleResponse grok ''y''" 1793680200000]
  have "\<exists>b \<in> set (stored_dailyUsage
          (trackUsage grok (exampleResponse grok ''y'') 1793680200000 ?s)).
        date b = ''2026-11-03'' \<and> requests b = 1"
    unfolding d f by simp
  then show ?thesis using h d by blast
qed


section \<open>Properties of the dispatch entry point\<close>

lemma sendToAI_missing_key:
  assumes "sendToAI_provider (aiRouter w) (getSettings (storage w)) req = Inr p"
    and "getAPIKey (storage w) p = None \<or> getAPIKey (storage w) p = Some ''''"
  shows "sendToAI_try env req w
         = (Inl (Error (''API key not found for '' @ AIProvider_name p)), w)"
  using assms by (auto simp: sendToAI_try_def Let_def)

lemma sendToAI_routing_failure:
  assumes "sendToAI_provider (aiRouter w) (getSettings (storage w)) req = Inl e"
  shows "sendToAI_try env req w = (Inl e, w)"
  using assms by (simp add: sendToAI_try_def Let_def)

lemma sendToAI_manager_failure:
  assumes "sendToAI_provider (aiRouter w) (getSettings (storage w)) req = Inr p"
    and "getAPIKey (storage w) p = Some k" and "k \<noteq> ''''"
    and "sendToAI_cacheLookup env (getSettings (storage w)) req (storage w) = (Inr None, s1)"
    and "APIManager_sendRequest (apiManager w) (dispatch env)
           \<lparr>request = req\<lparr>provider := Some p\<rparr>, apiKey = k,
            cfg_settings = providers (getSettings (storage w)) p\<rparr> = (Inl e, m1)"
  shows "sendToAI_try env req w = (Inl e, w\<lparr>storage := s1, apiManager := m1\<rparr>)"
  using assms by (simp add: sendToAI_try_def Let_def)

lemma manager_unknown_provider:
  assumes "provider (request req) = Some p" and "mgr_providers mgr p = None"
  shows "APIManager_sendRequest mgr env req
         = (Inl (Error (''Unknown provider: '' @ AIProvider_name p)), mgr)"
  using assms by (simp add: APIManager_sendRequest_def)

lemma manager_cancelled_stream:
  assumes "provider (request req) = Some p" and "mgr_providers mgr p = Some a"
    and "stream (request req) = Some True" and "list_ex snd (chunks env)"
  shows "fst (APIManager_sendRequest mgr env req) = Inl (Error ''Request was cancelled'')"
  using assms
  by (simp add: APIManager_sendRequest_def Let_def handleStreamingRequest_def Error_def)

lemma manager_abort_error:
  assumes "provider (request req) = Some p" and "mgr_providers mgr p = Some a"
    and "stream (request req) = Some True" and "\<not> list_ex snd (chunks env)"
    and "streamResult env = Inl (JsError ''AbortError'' m)"
  shows "fst (APIManager_sendRequest mgr env req) = Inl (Error ''Request was cancelled'')"
  using assms
  by (simp add: APIManager_sendRequest_def Let_def handleStreamingRequest_def)

text \<open>
  C10: \<open>sendToAI\<close> always returns a response. Whenever a step of its body throws (the
  router with no provider enabled, a missing API key, \<open>btoa\<close> on the cache key, the manager
  for an unknown provider, a rejected or cancelled stream), the response returned has the
  empty string as content and the thrown error's message as \<open>error\<close>, with the request's
  provider (Claude when it names none) and model; when no step throws, the response of the
  body is returned.
\<close>

theorem sendToAI_total:
  "(fst (sendToAI_try env req w) = Inl e \<longrightarrow>
      fst (sendToAI env req w)
      = \<lparr>resp_provider = (case provider req of None \<Rightarrow> claude | Some p \<Rightarrow> p),
         resp_model = model req, resp_content = '''', usage = None, cost = None,
         error = Some (err_message e), streaming = None, responseTime = None\<rparr>)
   \<and> (fst (sendToAI_try env req w) = Inr r \<longrightarrow> fst (sendToAI env req w) = r)
   \<and> snd (sendToAI env req w) = snd (sendToAI_try env req w)"
  by (cases "sendToAI_try env req w"; cases "fst (sendToAI_try env req w)")
     (simp_all add: sendToAI_def)

theorem sendToAI_total_witness:
  "fst (sendToAI_try (exampleEnv 0 (Returned (exampleResponse grok ''x'')))
          (simpleRequest (Some grok) ''hi'') (exampleWorld emptyStorage))
   = Inl (Error ''API key not found for grok'')
   \<and> fst (sendToAI (exampleEnv 0 (Returned (exampleResponse grok ''x'')))
          (simpleRequest (Some grok) ''hi'') (exampleWorld emptyStorage))
     = \<lparr>resp_provider = grok, resp_model = '''', resp_content = '''', usage = None, cost = None,
        error = Some ''API key not found for grok'', streaming = None, responseTime = None\<rparr>
   \<and> fst (sendToAI_try (exampleEnv 0 (Returned (exampleResponse claude ''x'')))
          (simpleRequest (Some claude) ''hi'') (exampleWorld (keyedStorage getDefaultSettings)))
     = Inr ((exampleResponse claude ''x'')\<lparr>responseTime := Some 1\<rparr>)
   \<and> fst (sendToAI (exampleEnv 0 (Returned (exampleResponse claude ''x'')))
          (simpleRequest (Some claude) ''hi'') (exampleWorld (keyedStorage getDefaultSettings)))
     = (exampleResponse claude ''x'')\<lparr>responseTime := Some 1\<rparr>"
proof -
  let ?env = "exampleEnv 0 (Returned (exampleResponse grok ''x''))"
  let ?req = "simpleRequest (Some grok) ''hi''"
  let ?w = "exampleWorld emptyStorage"
  let ?env2 = "exampleEnv 0 (Returned (exampleResponse claude ''x''))"
  let ?req2 = "simpleRequest (Some claude) ''hi''"
  let ?w2 = "exampleWorld (keyedStorage getDefaultSettings)"
  have t: "fst (sendToAI_try ?env ?req ?w) = Inl (Error ''API key not found for grok'')"
    by (simp add: sendToAI_try_def sendToAI_provider_def simpleRequest_def exampleWorld_def
        emptyStorage_def getAPIKey_def Let_def)
  from sendToAI_total [of ?env ?req ?w "Error ''API key not found for grok''"] t
  have s: "fst (sendToAI ?env ?req ?w)
     = \<lparr>resp_provider = grok, resp_model = '''', resp_content = '''', usage = None, cost = None,
        error = Some ''API key not found for grok'', streaming = None, responseTime = None\<rparr>"
    by (simp add: simpleRequest_def Error_def)
  have t2: "fst (sendToAI_try ?env2 ?req2 ?w2)
     = Inr ((exampleResponse claude ''x'')\<lparr>responseTime := Some 1\<rparr>)"
    by code_simp
  from sendToAI_total [of ?env2 ?req2 ?w2 undefined
      "(exampleResponse claude ''x'')\<lparr>responseTime := Some 1\<rparr>"] t2
  have s2: "fst (sendToAI ?env2 ?req2 ?w2) = (exampleResponse claude ''x'')\<lparr>responseTime := Some 1\<rparr>"
    by blast
  show ?thesis using t s t2 s2 by blast
qed

text \<open>
  C6 fails on the code: \<open>generateCacheKey\<close> is given the request as it came in, not the
  request with the resolved provider. A request that names no provider is dispatched under
  settings whose default provider is Claude, and Claude's answer is cached. The default
  provider is then changed to Grok and the same request is dispatched again: it resolves to
  Grok, the key is the same, and the answer returned is Claude's cached one.
\<close>

theorem cache_key_ignores_resolved_provider:
  "sendToAI_provider AIRouter_new (manualSettings claude) (simpleRequest None ''hello'') = Inr claude
   \<and> sendToAI_provider AIRouter_new (manualSettings grok) (simpleRequest None ''hello'') = Inr grok
   \<and> fst (sendToAI (exampleEnv 200 (Returned (exampleResponse grok ''from grok'')))
          (simpleRequest None ''hello'')
          ((snd (sendToAI (exampleEnv 100 (Returned (exampleResponse claude ''from claude'')))
                   (simpleRequest None ''hello'')
                   (exampleWorld (keyedStorage (manualSettings claude)))))
           \<lparr>storage := (storage (snd (sendToAI
                   (exampleEnv 100 (Returned (exampleResponse claude ''from claude'')))
                   (simpleRequest None ''hello'')
                   (exampleWorld (keyedStorage (manualSettings claude))))))
              \<lparr>settings := Some (manualSettings grok)\<rparr>\<rparr>))
     = (exampleResponse claude ''from claude'')\<lparr>responseTime := Some 1\<rparr>"
  by code_simp


end
